theory Spec2Isabelle
  imports Main
begin

section \<open>JavaScript strings\<close>

text \<open>
  A JavaScript string is modelled as a \<^typ>\<open>string\<close>: one \<^typ>\<open>char\<close> stands for one code
  unit. Every marker the program looks for (\<open>#\<close>, \<open>*\<close>, \<open>-\<close>, blank, line feed) is a single
  code unit, and every operation below works code unit by code unit.
\<close>

fun startsWith :: "string \<Rightarrow> string \<Rightarrow> bool" where
  "startsWith s [] = True"
| "startsWith [] (p # ps) = False"
| "startsWith (c # cs) (p # ps) = (c = p \<and> startsWith cs ps)"

definition endsWith :: "string \<Rightarrow> string \<Rightarrow> bool" where
  "endsWith s p = startsWith (rev s) (rev p)"

fun includes_str :: "string \<Rightarrow> string \<Rightarrow> bool" where
  "includes_str [] p = (p = [])"
| "includes_str (c # cs) p = (startsWith (c # cs) p \<or> includes_str cs p)"

text \<open>
  \<open>s.substring(a, b)\<close>: both indices are clamped to \<open>0 .. s.length\<close>, and when the first
  is greater than the second the two are swapped.
\<close>

definition substring :: "string \<Rightarrow> int \<Rightarrow> int \<Rightarrow> string" where
  "substring s a b =
     (let n = int (length s);
          finalStart = min (max a 0) n;
          finalEnd = min (max b 0) n;
          from = min finalStart finalEnd;
          to = max finalStart finalEnd
      in take (nat (to - from)) (drop (nat from) s))"

text \<open>\<open>s.substring(a)\<close>: the end index defaults to \<open>s.length\<close>.\<close>

definition substring_from :: "string \<Rightarrow> int \<Rightarrow> string" where
  "substring_from s a = substring s a (int (length s))"

text \<open>
  \<open>s.split(sep)\<close> for a non-empty separator: the text is scanned from the left, each
  occurrence of the separator closes the current field, and the search goes on behind
  the occurrence. There is always a last field, so the result is never empty.
\<close>

fun split_fields :: "string \<Rightarrow> string \<Rightarrow> string list" where
  "split_fields sep [] = [[]]"
| "split_fields sep (c # cs) =
     (if startsWith (c # cs) sep then [] # split_fields sep (drop (length sep - 1) cs)
      else (case split_fields sep cs of
              [] \<Rightarrow> [[c]]
            | f # fs \<Rightarrow> (c # f) # fs))"

text \<open>With the empty separator \<open>split\<close> returns the code units one by one.\<close>

definition split_str :: "string \<Rightarrow> string \<Rightarrow> string list" where
  "split_str s sep = (if sep = [] then map (\<lambda>c. [c]) s else split_fields sep s)"

text \<open>
  \<open>s.trim()\<close> removes white space and line terminators from both ends. Of the code units
  below 256 these are tab, line feed, vertical tab, form feed, carriage return, space and
  the no-break space.
\<close>

definition is_space :: "char \<Rightarrow> bool" where
  "is_space c = (c \<in> set [CHR 0x09, CHR 0x0A, CHR 0x0B, CHR 0x0C, CHR 0x0D, CHR 0x20, CHR 0xA0])"

definition trim :: "string \<Rightarrow> string" where
  "trim s = rev (dropWhile is_space (rev (dropWhile is_space s)))"

text \<open>\<open>parts.join(sep)\<close>, used to say what the lines of a text are.\<close>

fun join :: "string \<Rightarrow> string list \<Rightarrow> string" where
  "join sep [] = []"
| "join sep [x] = x"
| "join sep (x # y # ys) = x @ sep @ join sep (y # ys)"


section \<open>The renderer of \<open>ReportView\<close>\<close>

text \<open>
  The component maps every line of \<open>report.report_content.split('\n')\<close> to one element:
  \<open>h1\<close>, \<open>h2\<close>, \<open>h3\<close>, a bold \<open>p\<close>, a \<open>p\<close> of \<open>span\<close> and \<open>strong\<close> runs, \<open>li\<close>,
  \<open>hr\<close>, \<open>br\<close> or a plain \<open>p\<close>.
\<close>

datatype run = Span string | Strong string

datatype BlockElement =
    Heading1 string
  | Heading2 string
  | Heading3 string
  | BoldParagraph string
  | MixedParagraph "run list"
  | ListItem string
  | Rule
  | LineBreak
  | PlainParagraph string

text \<open>\<open>parts.map((part, i) => i % 2 === 0 ? <span>part</span> : <strong>part</strong>)\<close>\<close>

definition runs :: "string list \<Rightarrow> run list" where
  "runs parts = map (\<lambda>(i, part). if i mod 2 = 0 then Span part else Strong part) (enumerate 0 parts)"

definition render_line :: "string \<Rightarrow> BlockElement" where
  "render_line line =
     (if startsWith line ''# '' then Heading1 (substring_from line 2)
      else if startsWith line ''## '' then Heading2 (substring_from line 3)
      else if startsWith line ''### '' then Heading3 (substring_from line 4)
      else if startsWith line ''**'' \<and> endsWith line ''**''
        then BoldParagraph (substring line 2 (int (length line) - 2))
      else if includes_str line ''**'' then MixedParagraph (runs (split_str line ''**''))
      else if startsWith line ''- '' then ListItem (substring_from line 2)
      else if line = ''---'' then Rule
      else if trim line = [] then LineBreak
      else PlainParagraph line)"

definition render :: "string \<Rightarrow> BlockElement list" where
  "render report_content = map render_line (split_str report_content ''\<newline>'')"


section \<open>Records of the store\<close>

text \<open>
  The fields of \<open>Visit\<close>, \<open>Photo\<close> and \<open>Note\<close> that \<open>createReport\<close> reads, and the photo's
  address. All of them have the TypeScript type \<open>string\<close>; the store declares \<open>category\<close>,
  \<open>location\<close> and \<open>caption\<close> as free text, and the note editor offers the eight
  categories of \<open>categoryTitles\<close> below.
\<close>

record Visit =
  college_name :: string
  visit_date :: string
  location :: string

record Photo =
  photo_url :: string
  caption :: string

record Note =
  category :: string
  content :: string

text \<open>
  The two calls into the platform's date library: \<open>toLocaleDateString env s\<close> is
  \<open>new Date(s).toLocaleDateString('en-US', {year, month, day})\<close>, which returns a text for
  every \<open>s\<close>, and \<open>today env\<close> is the same for \<open>new Date()\<close>.
\<close>

record DateEnv =
  toLocaleDateString :: "string \<Rightarrow> string"
  today :: string


section \<open>The object \<open>notesByCategory\<close>\<close>

text \<open>
  \<open>notesByCategory\<close> is an ordinary object created by \<open>{}\<close>. Its own properties are kept
  in the order of their creation. A read \<open>obj[k]\<close> finds an own property first and then
  the properties that every ordinary object inherits from \<open>Object.prototype\<close>; all of these
  are functions or objects, hence truthy, and none has a \<open>push\<close> method.
\<close>

type_synonym NoteObject = "(string \<times> Note list) list"

definition object_prototype_keys :: "string list" where
  "object_prototype_keys =
     [''constructor'', ''__proto__'', ''hasOwnProperty'', ''isPrototypeOf'',
      ''propertyIsEnumerable'', ''toLocaleString'', ''toString'', ''valueOf'',
      ''__defineGetter__'', ''__defineSetter__'', ''__lookupGetter__'', ''__lookupSetter__'']"

datatype property = Undefined | OwnArray "Note list" | InheritedValue

definition get_property :: "NoteObject \<Rightarrow> string \<Rightarrow> property" where
  "get_property obj k =
     (case map_of obj k of
        Some ns \<Rightarrow> OwnArray ns
      | None \<Rightarrow> if k \<in> set object_prototype_keys then InheritedValue else Undefined)"

text \<open>\<open>!obj[k]\<close> is true for \<open>undefined\<close> only: an array is truthy even when empty.\<close>

fun truthy :: "property \<Rightarrow> bool" where
  "truthy Undefined = False"
| "truthy (OwnArray ns) = True"
| "truthy InheritedValue = True"

text \<open>An assignment keeps the place of an existing own property and appends a new one.\<close>

fun set_property :: "NoteObject \<Rightarrow> string \<Rightarrow> Note list \<Rightarrow> NoteObject" where
  "set_property [] k v = [(k, v)]"
| "set_property ((k', v') # obj) k v =
     (if k' = k then (k, v) # obj else (k', v') # set_property obj k v)"

datatype js_error = TypeError

text \<open>
  The body of \<open>notes.forEach\<close>:
  \<^verbatim>\<open>if (!notesByCategory[note.category]) { notesByCategory[note.category] = []; }\<close>
  \<^verbatim>\<open>notesByCategory[note.category].push(note);\<close>
  Calling \<open>push\<close> on an inherited value throws a \<open>TypeError\<close>, which ends \<open>createReport\<close>.
\<close>

definition group_note :: "NoteObject \<Rightarrow> Note \<Rightarrow> js_error + NoteObject" where
  "group_note notesByCategory note =
     (let obj = (if \<not> truthy (get_property notesByCategory (category note))
                 then set_property notesByCategory (category note) []
                 else notesByCategory)
      in case get_property obj (category note) of
           OwnArray ns \<Rightarrow> Inr (set_property obj (category note) (ns @ [note]))
         | InheritedValue \<Rightarrow> Inl TypeError
         | Undefined \<Rightarrow> Inl TypeError)"

fun forEach_note :: "NoteObject \<Rightarrow> Note list \<Rightarrow> js_error + NoteObject" where
  "forEach_note obj [] = Inr obj"
| "forEach_note obj (note # notes) =
     (case group_note obj note of
        Inl e \<Rightarrow> Inl e
      | Inr obj' \<Rightarrow> forEach_note obj' notes)"

definition group_notes :: "Note list \<Rightarrow> js_error + NoteObject" where
  "group_notes notes = forEach_note [] notes"

text \<open>
  \<open>Object.keys\<close> and \<open>Object.entries\<close> list the own properties whose key is an array
  index first, in ascending numeric order, and then the other keys in the order of their
  creation. An array index is the canonical decimal numeral of an integer from \<open>0\<close> to
  \<open>2^32 - 2\<close>.
\<close>

definition is_digit :: "char \<Rightarrow> bool" where
  "is_digit c = (c \<in> set ''0123456789'')"

definition numeric_value :: "string \<Rightarrow> nat" where
  "numeric_value k = foldl (\<lambda>n c. 10 * n + (of_char c - 48)) 0 k"

definition is_array_index :: "string \<Rightarrow> bool" where
  "is_array_index k =
     (k \<noteq> [] \<and> list_all is_digit k \<and> (k = ''0'' \<or> hd k \<noteq> CHR ''0'')
      \<and> numeric_value k \<le> 4294967294)"

definition own_entries :: "NoteObject \<Rightarrow> NoteObject" where
  "own_entries obj =
     sort_key (\<lambda>(k, v). numeric_value k) (filter (\<lambda>(k, v). is_array_index k) obj)
     @ filter (\<lambda>(k, v). \<not> is_array_index k) obj"

definition own_keys :: "NoteObject \<Rightarrow> string list" where
  "own_keys obj = map fst (own_entries obj)"


section \<open>\<open>createReport\<close>\<close>

text \<open>A number inside a template literal is printed in decimal.\<close>

definition digit_char :: "nat \<Rightarrow> char" where
  "digit_char d = ''0123456789'' ! d"

fun number_toString :: "nat \<Rightarrow> string" where
  "number_toString n =
     (if n < 10 then [digit_char n]
      else number_toString (n div 10) @ [digit_char (n mod 10)])"

declare number_toString.simps [simp del]

text \<open>\<open>n !== 1 ? 's' : ''\<close>\<close>

definition plural :: "nat \<Rightarrow> string" where
  "plural n = (if n \<noteq> 1 then ''s'' else [])"

definition categoryTitles :: "(string \<times> string) list" where
  "categoryTitles =
     [(''academics'', ''Academic Programs & Quality''),
      (''campus'', ''Campus Life & Culture''),
      (''facilities'', ''Facilities & Resources''),
      (''location'', ''Location & Surroundings''),
      (''housing'', ''Housing & Accommodation''),
      (''financial'', ''Financial Aid & Costs''),
      (''social'', ''Social Environment''),
      (''general'', ''General Observations'')]"

text \<open>
  \<open>categoryTitles[category] || category\<close>, for the keys of \<open>notesByCategory\<close>. Every title
  of the table is a non-empty text, hence truthy. No key of \<open>notesByCategory\<close> is an
  inherited name, since \<open>push\<close> throws for such a category before a property is created,
  so the lookup in \<open>categoryTitles\<close> never reaches an inherited value.
\<close>

definition category_heading :: "string \<Rightarrow> string" where
  "category_heading c = (case map_of categoryTitles c of Some t \<Rightarrow> t | None \<Rightarrow> c)"

definition report_header :: "DateEnv \<Rightarrow> Visit \<Rightarrow> string" where
  "report_header env visit =
     ''# College Visit Report: '' @ college_name visit @ ''\<newline>\<newline>''
     @ ''**Visit Date:** '' @ toLocaleDateString env (visit_date visit) @ ''\<newline>\<newline>''
     @ (if location visit \<noteq> [] then ''**Location:** '' @ location visit @ ''\<newline>\<newline>'' else [])
     @ ''---\<newline>\<newline>''"

definition executive_summary :: "Visit \<Rightarrow> Photo list \<Rightarrow> Note list \<Rightarrow> NoteObject \<Rightarrow> string" where
  "executive_summary visit photos notes notesByCategory =
     ''## Executive Summary\<newline>\<newline>''
     @ ''This report documents my visit to '' @ college_name visit @ ''. ''
     @ ''During this visit, I took '' @ number_toString (length photos)
       @ '' photo'' @ plural (length photos) @ '' ''
     @ ''and recorded '' @ number_toString (length notes)
       @ '' detailed note'' @ plural (length notes) @ '' ''
     @ ''across '' @ number_toString (length (own_keys notesByCategory))
       @ '' different categories.\<newline>\<newline>''"

definition detailed_observations :: "NoteObject \<Rightarrow> string" where
  "detailed_observations notesByCategory =
     (if length (own_keys notesByCategory) > 0
      then ''## Detailed Observations\<newline>\<newline>''
           @ concat (map (\<lambda>(category, categoryNotes).
                       ''### '' @ category_heading category @ ''\<newline>\<newline>''
                       @ concat (map (\<lambda>note. content note @ ''\<newline>\<newline>'') categoryNotes))
                     (own_entries notesByCategory))
      else [])"

definition visual_documentation :: "Photo list \<Rightarrow> string" where
  "visual_documentation photos =
     (if length photos > 0
      then ''## Visual Documentation\<newline>\<newline>''
           @ ''I captured '' @ number_toString (length photos) @ '' photo'' @ plural (length photos)
           @ '' during my visit, documenting various aspects of the campus including:\<newline>\<newline>''
           @ concat (map (\<lambda>photo. if caption photo \<noteq> [] then ''- '' @ caption photo @ ''\<newline>'' else [])
                     photos)
           @ ''\<newline>''
      else [])"

definition keyPoints :: "NoteObject \<Rightarrow> string list" where
  "keyPoints notesByCategory =
     (if truthy (get_property notesByCategory ''academics'')
      then [''Academic programs and educational opportunities were evaluated''] else [])
     @ (if truthy (get_property notesByCategory ''campus'')
        then [''Campus culture and student life were observed''] else [])
     @ (if truthy (get_property notesByCategory ''facilities'')
        then [''Campus facilities and resources were examined''] else [])
     @ (if truthy (get_property notesByCategory ''location'')
        then [''Location and surrounding area were assessed''] else [])
     @ (if truthy (get_property notesByCategory ''housing'')
        then [''Housing options and living arrangements were reviewed''] else [])
     @ (if truthy (get_property notesByCategory ''financial'')
        then [''Financial considerations and aid opportunities were discussed''] else [])
     @ (if truthy (get_property notesByCategory ''social'')
        then [''Social environment and community aspects were evaluated''] else [])"

definition key_takeaways :: "Note list \<Rightarrow> NoteObject \<Rightarrow> string" where
  "key_takeaways notes notesByCategory =
     ''## Key Takeaways\<newline>\<newline>''
     @ (if length notes = 0
        then ''While I didn't record specific notes during this visit, the experience and photos provide valuable documentation for future reference.\<newline>\<newline>''
        else ''Based on my observations and notes, here are the main points to consider:\<newline>\<newline>''
             @ concat (map (\<lambda>point. ''- '' @ point @ ''\<newline>'') (keyPoints notesByCategory))
             @ ''\<newline>'')"

definition next_steps :: string where
  "next_steps =
     ''## Next Steps\<newline>\<newline>''
     @ ''- Review this report alongside other college visit reports\<newline>''
     @ ''- Compare academic programs, campus culture, and overall fit\<newline>''
     @ ''- Consider revisiting if needed for deeper exploration\<newline>''
     @ ''- Discuss findings with family, counselors, and mentors\<newline>''
     @ ''- Make informed decisions about college applications\<newline>\<newline>''"

definition report_footer :: "DateEnv \<Rightarrow> string" where
  "report_footer env =
     ''---\<newline>\<newline>'' @ ''*Report generated on '' @ today env @ ''*\<newline>''"

definition createReport :: "DateEnv \<Rightarrow> Visit \<Rightarrow> Photo list \<Rightarrow> Note list \<Rightarrow> js_error + string" where
  "createReport env visit photos notes =
     (case group_notes notes of
        Inl e \<Rightarrow> Inl e
      | Inr notesByCategory \<Rightarrow>
          Inr (report_header env visit
               @ executive_summary visit photos notes notesByCategory
               @ detailed_observations notesByCategory
               @ visual_documentation photos
               @ key_takeaways notes notesByCategory
               @ next_steps
               @ report_footer env))"


section \<open>The grouping and the units of a document, as the specification describes them\<close>

text \<open>
  The specification's first step: the notes are partitioned by category, the categories in
  the order in which they are first seen, the notes of one category in the order of the
  input. \<open>first_seen\<close> keeps the first occurrence of every element of a list, and
  \<open>stable_grouping\<close> is the partition. Both follow the specification's words; the
  theorems compare them with \<open>group_notes\<close> and \<open>own_entries\<close>, which follow the code.
\<close>

fun first_seen :: "'a list \<Rightarrow> 'a list" where
  "first_seen [] = []"
| "first_seen (x # xs) = x # filter (\<lambda>y. y \<noteq> x) (first_seen xs)"

definition stable_grouping :: "Note list \<Rightarrow> NoteObject" where
  "stable_grouping notes =
     map (\<lambda>c. (c, filter (\<lambda>note. category note = c) notes)) (first_seen (map category notes))"

text \<open>
  A text fits on one line when it holds no line feed. \<open>unlines\<close> writes every line of a
  list followed by a line feed.
\<close>

definition single_line :: "string \<Rightarrow> bool" where
  "single_line s = (CHR ''\<newline>'' \<notin> set s)"

definition unlines :: "string list \<Rightarrow> string" where
  "unlines ls = concat (map (\<lambda>l. l @ ''\<newline>'') ls)"

text \<open>
  The logical units of a document, section by section and in the order in which
  \<open>createReport\<close> writes them: the title, the metadata lines, the rules, the headings, the
  sentences, one unit for every note's content and one for every bullet. The empty text
  stands for an empty line. The two sentences that report counts are spelled out with
  their singular and plural forms.
\<close>

definition summary_sentence :: "Visit \<Rightarrow> Photo list \<Rightarrow> Note list \<Rightarrow> NoteObject \<Rightarrow> string" where
  "summary_sentence visit photos notes notesByCategory =
     ''This report documents my visit to '' @ college_name visit
     @ ''. During this visit, I took '' @ number_toString (length photos)
     @ (if length photos = 1 then '' photo '' else '' photos '')
     @ ''and recorded '' @ number_toString (length notes)
     @ (if length notes = 1 then '' detailed note '' else '' detailed notes '')
     @ ''across '' @ number_toString (length (own_keys notesByCategory))
     @ '' different categories.''"

definition visual_sentence :: "Photo list \<Rightarrow> string" where
  "visual_sentence photos =
     ''I captured '' @ number_toString (length photos)
     @ (if length photos = 1 then '' photo'' else '' photos'')
     @ '' during my visit, documenting various aspects of the campus including:''"

definition header_lines :: "DateEnv \<Rightarrow> Visit \<Rightarrow> string list" where
  "header_lines env visit =
     [''# College Visit Report: '' @ college_name visit, [],
      ''**Visit Date:** '' @ toLocaleDateString env (visit_date visit), []]
     @ (if location visit \<noteq> [] then [''**Location:** '' @ location visit, []] else [])
     @ [''---'', []]"

definition summary_lines :: "Visit \<Rightarrow> Photo list \<Rightarrow> Note list \<Rightarrow> NoteObject \<Rightarrow> string list" where
  "summary_lines visit photos notes notesByCategory =
     [''## Executive Summary'', [], summary_sentence visit photos notes notesByCategory, []]"

definition observation_lines :: "NoteObject \<Rightarrow> string list" where
  "observation_lines notesByCategory =
     (if notesByCategory = [] then []
      else [''## Detailed Observations'', []]
           @ concat (map (\<lambda>(c, ns). [''### '' @ category_heading c, []]
                                     @ concat (map (\<lambda>n. [content n, []]) ns))
                     (own_entries notesByCategory)))"

definition visual_lines :: "Photo list \<Rightarrow> string list" where
  "visual_lines photos =
     (if photos = [] then []
      else [''## Visual Documentation'', [], visual_sentence photos, []]
           @ map (\<lambda>p. ''- '' @ caption p) (filter (\<lambda>p. caption p \<noteq> []) photos)
           @ [[]])"

definition takeaway_lines :: "Note list \<Rightarrow> NoteObject \<Rightarrow> string list" where
  "takeaway_lines notes notesByCategory =
     [''## Key Takeaways'', []]
     @ (if notes = []
        then [''While I didn't record specific notes during this visit, the experience and photos provide valuable documentation for future reference.'', []]
        else [''Based on my observations and notes, here are the main points to consider:'', []]
             @ map (\<lambda>point. ''- '' @ point) (keyPoints notesByCategory)
             @ [[]])"

definition next_steps_lines :: "string list" where
  "next_steps_lines =
     [''## Next Steps'', [],
      ''- Review this report alongside other college visit reports'',
      ''- Compare academic programs, campus culture, and overall fit'',
      ''- Consider revisiting if needed for deeper exploration'',
      ''- Discuss findings with family, counselors, and mentors'',
      ''- Make informed decisions about college applications'', []]"

definition footer_lines :: "DateEnv \<Rightarrow> string list" where
  "footer_lines env = [''---'', [], ''*Report generated on '' @ today env @ ''*'']"

definition report_lines :: "DateEnv \<Rightarrow> Visit \<Rightarrow> Photo list \<Rightarrow> Note list \<Rightarrow> NoteObject \<Rightarrow> string list" where
  "report_lines env visit photos notes notesByCategory =
     header_lines env visit
     @ summary_lines visit photos notes notesByCategory
     @ observation_lines notesByCategory
     @ visual_lines photos
     @ takeaway_lines notes notesByCategory
     @ next_steps_lines
     @ footer_lines env"


section \<open>Facts about the string operations\<close>

lemma startsWith_append: "startsWith (p @ s) p"
  by (induction p) auto

lemma startsWith_decompose: "startsWith s p \<Longrightarrow> s = p @ drop (length p) s"
  by (induction s p rule: startsWith.induct) auto

lemma startsWith_iff: "startsWith s p \<longleftrightarrow> (\<exists>r. s = p @ r)"
  using startsWith_append startsWith_decompose by metis

lemma split_fields_not_Nil: "split_fields sep s \<noteq> []"
  by (induction sep s rule: split_fields.induct) (auto split: list.splits)

lemma join_Cons: "fs \<noteq> [] \<Longrightarrow> join sep (f # fs) = f @ sep @ join sep fs"
  by (cases fs) auto

lemma join_Cons_Cons: "join sep ((c # f) # fs) = c # join sep (f # fs)"
  by (cases fs) auto

lemma join_split_fields: "sep \<noteq> [] \<Longrightarrow> join sep (split_fields sep s) = s"
proof (induction sep s rule: split_fields.induct)
  case (1 sep)
  then show ?case by simp
next
  case (2 sep c cs)
  show ?case
  proof (cases "startsWith (c # cs) sep")
    case True
    from True have dec: "c # cs = sep @ drop (length sep) (c # cs)"
      by (rule startsWith_decompose)
    from \<open>sep \<noteq> []\<close> have dr: "drop (length sep) (c # cs) = drop (length sep - 1) cs"
      by (cases sep) auto
    from True 2 have ih: "join sep (split_fields sep (drop (length sep - 1) cs)) = drop (length sep - 1) cs"
      by simp
    from True have "split_fields sep (c # cs) = [] # split_fields sep (drop (length sep - 1) cs)"
      by simp
    then have "join sep (split_fields sep (c # cs)) = sep @ drop (length sep - 1) cs"
      using ih by (simp add: join_Cons split_fields_not_Nil)
    also have "\<dots> = c # cs"
      using dec dr by simp
    finally show ?thesis .
  next
    case False
    obtain f fs where ffs: "split_fields sep cs = f # fs"
      using split_fields_not_Nil by (cases "split_fields sep cs") auto
    with False 2 show ?thesis
      by (simp add: join_Cons_Cons)
  qed
qed

lemma length_split_fields_char: "length (split_fields [d] s) = Suc (count_list s d)"
  by (induction s) (auto split: list.splits simp: split_fields_not_Nil)

lemma split_fields_char_no_sep: "f \<in> set (split_fields [d] s) \<Longrightarrow> d \<notin> set f"
  by (induction s arbitrary: f) (auto split: list.splits if_splits)

lemma runs_length: "length (runs ps) = length ps"
  by (simp add: runs_def)

lemma runs_nth: "i < length ps \<Longrightarrow> runs ps ! i = (if even i then Span (ps ! i) else Strong (ps ! i))"
  by (simp add: runs_def nth_enumerate_eq even_iff_mod_2_eq_zero)


section \<open>Facts about the grouping\<close>

lemma set_first_seen: "set (first_seen xs) = set xs"
  by (induction xs) auto

lemma distinct_first_seen: "distinct (first_seen xs)"
  by (induction xs) auto

lemma first_seen_snoc:
  "first_seen (xs @ [x]) = (if x \<in> set xs then first_seen xs else first_seen xs @ [x])"
proof (induction xs)
  case Nil
  show ?case by simp
next
  case (Cons a xs)
  have "x \<notin> set xs \<Longrightarrow> filter (\<lambda>y. y \<noteq> a) (first_seen xs @ [x])
        = filter (\<lambda>y. y \<noteq> a) (first_seen xs) @ (if x = a then [] else [x])"
    by simp
  with Cons show ?case by auto
qed

lemma forEach_note_snoc:
  "forEach_note obj (notes @ [note]) =
     (case forEach_note obj notes of Inl e \<Rightarrow> Inl e | Inr obj' \<Rightarrow> group_note obj' note)"
  by (induction "notes" arbitrary: obj) (auto split: sum.splits)

lemma set_property_fresh: "k \<notin> fst ` set obj \<Longrightarrow> set_property obj k v = obj @ [(k, v)]"
  by (induction obj) auto

lemma set_property_map:
  "distinct ks \<Longrightarrow> k \<in> set ks \<Longrightarrow>
   set_property (map (\<lambda>c. (c, f c)) ks) k v = map (\<lambda>c. (c, if c = k then v else f c)) ks"
proof (induction ks)
  case Nil
  then show ?case by simp
next
  case (Cons a ks)
  show ?case
  proof (cases "a = k")
    case True
    with Cons.prems have "k \<notin> set ks" by simp
    then have "map (\<lambda>c. (c, f c)) ks = map (\<lambda>c. (c, if c = k then v else f c)) ks"
      by (intro map_cong) auto
    with True show ?thesis by simp
  next
    case False
    with Cons show ?thesis by simp
  qed
qed

lemma map_of_snoc_fresh: "k \<notin> fst ` set obj \<Longrightarrow> map_of (obj @ [(k, v)]) k = Some v"
  by (induction obj) auto

lemma set_property_snoc_fresh:
  "k \<notin> fst ` set obj \<Longrightarrow> set_property (obj @ [(k, v)]) k w = obj @ [(k, w)]"
  by (induction obj) auto

lemma map_of_map_keys: "map_of (map (\<lambda>c. (c, f c)) ks) k = (if k \<in> set ks then Some (f k) else None)"
  by (induction ks) auto

lemma get_property_stable_grouping:
  "get_property (stable_grouping notes) k =
     (if k \<in> category ` set notes then OwnArray (filter (\<lambda>note. category note = k) notes)
      else if k \<in> set object_prototype_keys then InheritedValue else Undefined)"
  by (simp add: get_property_def stable_grouping_def map_of_map_keys set_first_seen)

lemma group_note_stable_grouping:
  assumes "category note \<notin> set object_prototype_keys"
  shows "group_note (stable_grouping notes) note = Inr (stable_grouping (notes @ [note]))"
proof (cases "category note \<in> category ` set notes")
  case True
  then have mem: "category note \<in> set (first_seen (map category notes))"
    by (simp add: set_first_seen)
  have "set_property (stable_grouping notes) (category note)
          (filter (\<lambda>n. category n = category note) notes @ [note])
        = stable_grouping (notes @ [note])"
    unfolding stable_grouping_def
    using True by (simp add: set_property_map [OF distinct_first_seen mem] first_seen_snoc)
  with True show ?thesis
    by (simp add: group_note_def get_property_stable_grouping)
next
  case False
  then have fresh: "category note \<notin> fst ` set (stable_grouping notes)"
    by (auto simp: stable_grouping_def set_first_seen)
  let ?obj = "stable_grouping notes @ [(category note, [])]"
  have get: "get_property ?obj (category note) = OwnArray []"
    using fresh by (simp add: get_property_def map_of_snoc_fresh del: map_of_append)
  have "set_property ?obj (category note) [note] = stable_grouping notes @ [(category note, [note])]"
    using fresh by (rule set_property_snoc_fresh)
  also have "\<dots> = stable_grouping (notes @ [note])"
  proof -
    have empty: "filter (\<lambda>n. category n = category note) notes = []"
      using False by (auto simp: filter_empty_conv image_iff)
    have same: "map (\<lambda>c. (c, filter (\<lambda>n. category n = c) (notes @ [note])))
                  (first_seen (map category notes))
                = map (\<lambda>c. (c, filter (\<lambda>n. category n = c) notes)) (first_seen (map category notes))"
      using False by (intro map_cong) (auto simp: set_first_seen)
    have "stable_grouping (notes @ [note])
          = map (\<lambda>c. (c, filter (\<lambda>n. category n = c) (notes @ [note])))
              (first_seen (map category notes))
            @ [(category note, filter (\<lambda>n. category n = category note) (notes @ [note]))]"
      using False by (simp add: stable_grouping_def first_seen_snoc)
    also have "\<dots> = stable_grouping notes @ [(category note, [note])]"
      unfolding same using empty by (simp add: stable_grouping_def)
    finally show ?thesis by simp
  qed
  finally have "set_property ?obj (category note) [note] = stable_grouping (notes @ [note])" .
  with False assms get show ?thesis
    by (simp add: group_note_def get_property_stable_grouping set_property_fresh [OF fresh])
qed

lemma group_note_inherited:
  assumes "category note \<in> set object_prototype_keys"
      and "category note \<notin> category ` set notes"
  shows "group_note (stable_grouping notes) note = Inl TypeError"
  using assms by (simp add: group_note_def get_property_stable_grouping)

lemma group_notes_stable_grouping:
  "\<forall>note \<in> set notes. category note \<notin> set object_prototype_keys \<Longrightarrow>
   group_notes notes = Inr (stable_grouping notes)"
proof (induction "notes" rule: rev_induct)
  case Nil
  show ?case by (simp add: group_notes_def stable_grouping_def)
next
  case (snoc x xs)
  then show ?case
    by (simp add: group_notes_def forEach_note_snoc group_note_stable_grouping)
qed

lemma group_notes_inherited:
  "\<exists>note \<in> set notes. category note \<in> set object_prototype_keys \<Longrightarrow>
   group_notes notes = Inl TypeError"
proof (induction "notes" rule: rev_induct)
  case Nil
  then show ?case by simp
next
  case (snoc x xs)
  show ?case
  proof (cases "\<exists>n \<in> set xs. category n \<in> set object_prototype_keys")
    case True
    with snoc.IH show ?thesis
      by (simp add: group_notes_def forEach_note_snoc)
  next
    case False
    then have g: "group_notes xs = Inr (stable_grouping xs)"
      by (intro group_notes_stable_grouping) auto
    from False snoc.prems have inh: "category x \<in> set object_prototype_keys"
      by auto
    with False have "category x \<notin> category ` set xs"
      by auto
    with inh g show ?thesis
      by (simp add: group_notes_def forEach_note_snoc group_note_inherited)
  qed
qed


section \<open>Facts about the lines of a document\<close>

lemma set_own_entries: "set (own_entries obj) = set obj"
  by (auto simp: own_entries_def)

lemma length_own_entries: "length (own_entries obj) = length obj"
proof -
  have "length (filter (\<lambda>(k, v). is_array_index k) obj) + length (filter (\<lambda>(k, v). \<not> is_array_index k) obj)
        = length obj"
    by (induction obj) auto
  then show ?thesis
    by (simp add: own_entries_def)
qed

lemma length_own_keys: "length (own_keys obj) = length obj"
  by (simp add: own_keys_def length_own_entries)

lemma own_entries_no_index:
  "\<forall>(k, v) \<in> set obj. \<not> is_array_index k \<Longrightarrow> own_entries obj = obj"
proof -
  assume h: "\<forall>(k, v) \<in> set obj. \<not> is_array_index k"
  then have "filter (\<lambda>(k, v). is_array_index k) obj = []"
    by (auto simp: filter_empty_conv)
  moreover from h have "filter (\<lambda>(k, v). \<not> is_array_index k) obj = obj"
    by (auto simp: filter_id_conv)
  ultimately show ?thesis
    by (simp add: own_entries_def)
qed

lemma unlines_append: "unlines (xs @ ys) = unlines xs @ unlines ys"
  by (simp add: unlines_def)

lemma unlines_Nil: "unlines [] = []"
  by (simp add: unlines_def)

lemma unlines_Cons: "unlines (l # ls) = l @ ''\<newline>'' @ unlines ls"
  by (simp add: unlines_def)

lemma split_fields_line:
  "d \<notin> set l \<Longrightarrow> split_fields [d] (l @ d # rest) = l # split_fields [d] rest"
  by (induction l) auto

lemma split_fields_last_line:
  "d \<notin> set l \<Longrightarrow> split_fields [d] l = [l]"
  by (induction l) auto

lemma split_unlines:
  "\<forall>l \<in> set ls. single_line l \<Longrightarrow> split_str (unlines ls) ''\<newline>'' = ls @ [[]]"
proof (induction ls)
  case Nil
  show ?case by (simp add: split_str_def unlines_def)
next
  case (Cons l ls)
  then have "split_fields ''\<newline>'' (l @ CHR ''\<newline>'' # unlines ls) = l # split_fields ''\<newline>'' (unlines ls)"
    by (intro split_fields_line) (simp add: single_line_def)
  with Cons show ?case
    by (simp add: split_str_def unlines_Cons)
qed

lemma number_toString_digits: "set (number_toString n) \<subseteq> set ''0123456789''"
proof (induction n rule: number_toString.induct)
  case (1 n)
  have d: "\<And>k. k < 10 \<Longrightarrow> digit_char k \<in> set ''0123456789''"
    unfolding digit_char_def by (rule nth_mem) simp
  show ?case
  proof (cases "n < 10")
    case True
    with d [of n] show ?thesis
      by (subst number_toString.simps) simp
  next
    case False
    with 1 d [of "n mod 10"] show ?thesis
      by (subst number_toString.simps) simp
  qed
qed

lemma single_line_number: "single_line (number_toString n)"
  using number_toString_digits [of n] by (auto simp: single_line_def)

lemma single_line_append: "single_line (a @ b) \<longleftrightarrow> single_line a \<and> single_line b"
  by (auto simp: single_line_def)

lemma report_header_lines: "report_header env visit = unlines (header_lines env visit)"
  by (simp add: report_header_def header_lines_def unlines_def)

lemma executive_summary_lines:
  "executive_summary visit photos notes obj = unlines (summary_lines visit photos notes obj)"
  by (simp add: executive_summary_def summary_lines_def summary_sentence_def unlines_def plural_def)

lemma observation_section_lines:
  "concat (map (\<lambda>(category, categoryNotes).
                       ''### '' @ category_heading category @ ''\<newline>\<newline>''
                       @ concat (map (\<lambda>note. content note @ ''\<newline>\<newline>'') categoryNotes)) es)
   = unlines (concat (map (\<lambda>(c, ns). [''### '' @ category_heading c, []]
                                     @ concat (map (\<lambda>n. [content n, []]) ns)) es))"
proof (induction es)
  case Nil
  show ?case by (simp add: unlines_def)
next
  case (Cons e es)
  obtain c ns where e: "e = (c, ns)" by (cases e)
  have inner: "concat (map (\<lambda>note. content note @ ''\<newline>\<newline>'') ns)
               = unlines (concat (map (\<lambda>n. [content n, []]) ns))"
    by (induction ns) (simp_all add: unlines_def)
  from Cons e show ?case
    by (simp add: unlines_append unlines_Cons unlines_Nil inner)
qed

lemma detailed_observations_lines:
  "detailed_observations obj = unlines (observation_lines obj)"
  unfolding detailed_observations_def observation_lines_def observation_section_lines length_own_keys
  by (simp add: unlines_append unlines_Cons unlines_Nil)

lemma visual_documentation_lines:
  "visual_documentation photos = unlines (visual_lines photos)"
proof -
  have "concat (map (\<lambda>photo. if caption photo \<noteq> [] then ''- '' @ caption photo @ ''\<newline>'' else []) photos)
        = unlines (map (\<lambda>p. ''- '' @ caption p) (filter (\<lambda>p. caption p \<noteq> []) photos))"
    by (induction photos) (simp_all add: unlines_def)
  then show ?thesis
    by (simp add: visual_documentation_def visual_lines_def visual_sentence_def plural_def
        unlines_append unlines_Cons unlines_Nil)
qed

lemma key_takeaways_lines:
  "key_takeaways notes obj = unlines (takeaway_lines notes obj)"
proof -
  have bullets: "concat (map (\<lambda>point. ''- '' @ point @ ''\<newline>'') ps) = unlines (map (\<lambda>point. ''- '' @ point) ps)" for ps
    by (induction ps) (simp_all add: unlines_def)
  show ?thesis
    unfolding key_takeaways_def takeaway_lines_def bullets
    by (simp add: unlines_append unlines_Cons unlines_Nil)
qed

lemma next_steps_eq_lines: "next_steps = unlines next_steps_lines"
  by (simp add: next_steps_def next_steps_lines_def unlines_def)

lemma report_footer_lines: "report_footer env = unlines (footer_lines env)"
  by (simp add: report_footer_def footer_lines_def unlines_def)

lemma createReport_lines:
  "group_notes notes = Inr obj \<Longrightarrow>
   createReport env visit photos notes = Inr (unlines (report_lines env visit photos notes obj))"
  by (simp add: createReport_def report_lines_def unlines_append report_header_lines
      executive_summary_lines detailed_observations_lines visual_documentation_lines
      key_takeaways_lines next_steps_eq_lines report_footer_lines)

lemma createReport_sections:
  "\<forall>note \<in> set notes. category note \<notin> set object_prototype_keys \<Longrightarrow>
   createReport env visit photos notes
   = Inr (report_header env visit
          @ executive_summary visit photos notes (stable_grouping notes)
          @ detailed_observations (stable_grouping notes)
          @ visual_documentation photos
          @ key_takeaways notes (stable_grouping notes)
          @ next_steps
          @ report_footer env)"
  by (simp add: createReport_def group_notes_stable_grouping)

lemma length_first_seen: "length (first_seen xs) = card (set xs)"
  using distinct_card [OF distinct_first_seen, of xs] by (simp add: set_first_seen)

lemma category_count: "length (own_keys (stable_grouping notes)) = card (category ` set notes)"
  by (simp add: length_own_keys stable_grouping_def length_first_seen)

lemma single_line_header:
  assumes "single_line (college_name visit)"
      and "single_line (toLocaleDateString env (visit_date visit))"
      and "single_line (location visit)"
  shows "\<forall>l \<in> set (header_lines env visit). single_line l"
  using assms by (auto simp: header_lines_def single_line_def)

lemma single_line_summary:
  assumes "single_line (college_name visit)"
  shows "\<forall>l \<in> set (summary_lines visit photos notes obj). single_line l"
  using assms single_line_number [of "length photos"] single_line_number [of "length notes"]
    single_line_number [of "length (own_keys obj)"]
  by (simp add: summary_lines_def summary_sentence_def single_line_def)

lemma single_line_next_steps: "\<forall>l \<in> set next_steps_lines. single_line l"
  by (simp add: next_steps_lines_def single_line_def)

lemma single_line_footer:
  "single_line (today env) \<Longrightarrow> \<forall>l \<in> set (footer_lines env). single_line l"
  by (simp add: footer_lines_def single_line_def)

lemma keyPoints_subset:
  "set (keyPoints obj) \<subseteq>
     {''Academic programs and educational opportunities were evaluated'',
      ''Campus culture and student life were observed'',
      ''Campus facilities and resources were examined'',
      ''Location and surrounding area were assessed'',
      ''Housing options and living arrangements were reviewed'',
      ''Financial considerations and aid opportunities were discussed'',
      ''Social environment and community aspects were evaluated''}"
  unfolding keyPoints_def by (simp only: set_append set_simps if_distrib [of set] cong: if_cong) auto

lemma single_line_visual:
  "\<forall>p \<in> set photos. single_line (caption p) \<Longrightarrow> \<forall>l \<in> set (visual_lines photos). single_line l"
  using single_line_number [of "length photos"]
  by (auto simp: visual_lines_def visual_sentence_def single_line_def)

lemma includes_str_iff: "includes_str s p \<longleftrightarrow> (\<exists>a b. s = a @ p @ b)"
proof (induction s)
  case Nil
  show ?case by auto
next
  case (Cons c cs)
  show ?case
  proof
    assume "includes_str (c # cs) p"
    then consider "startsWith (c # cs) p" | "includes_str cs p" by auto
    then show "\<exists>a b. c # cs = a @ p @ b"
    proof cases
      case 1
      then obtain r where "c # cs = p @ r" using startsWith_iff by blast
      then have "c # cs = [] @ p @ r" by simp
      then show ?thesis by blast
    next
      case 2
      with Cons obtain a b where "cs = a @ p @ b" by blast
      then have "c # cs = (c # a) @ p @ b" by simp
      then show ?thesis by blast
    qed
  next
    assume "\<exists>a b. c # cs = a @ p @ b"
    then obtain a b where ab: "c # cs = a @ p @ b" by blast
    show "includes_str (c # cs) p"
    proof (cases a)
      case Nil
      with ab have "startsWith (c # cs) p"
        using startsWith_append [of p b] by simp
      then show ?thesis by simp
    next
      case (Cons x a')
      with ab have "cs = a' @ p @ b" by simp
      with Cons.IH have "includes_str cs p" by blast
      then show ?thesis by simp
    qed
  qed
qed

lemma unlines_member: "l \<in> set ls \<Longrightarrow> \<exists>a b. unlines ls = a @ l @ b"
proof -
  assume "l \<in> set ls"
  then obtain xs ys where "ls = xs @ l # ys"
    by (auto simp: in_set_conv_decomp)
  then have "unlines ls = unlines xs @ l @ (''\<newline>'' @ unlines ys)"
    by (simp add: unlines_append unlines_Cons)
  then show ?thesis by blast
qed

lemma stable_grouping_member:
  "n \<in> set notes \<Longrightarrow>
   (category n, filter (\<lambda>m. category m = category n) notes) \<in> set (stable_grouping notes)"
  by (auto simp: stable_grouping_def set_first_seen)

lemma content_in_observation_lines:
  assumes "(c, ns) \<in> set obj" and "n \<in> set ns"
  shows "content n \<in> set (observation_lines obj)"
proof -
  from assms(1) have ne: "obj \<noteq> []" by auto
  from assms(1) have "(c, ns) \<in> set (own_entries obj)"
    by (simp add: set_own_entries)
  with assms(2) have "content n \<in> set (concat (map (\<lambda>(c, ns). [''### '' @ category_heading c, []]
                                     @ concat (map (\<lambda>n. [content n, []]) ns)) (own_entries obj)))"
    by (auto intro!: bexI [of _ "(c, ns)"] bexI [of _ n])
  with ne show ?thesis
    by (simp add: observation_lines_def)
qed

lemma createReport_Inr_not_inherited:
  "createReport env visit photos notes = Inr doc \<Longrightarrow>
   \<forall>note \<in> set notes. category note \<notin> set object_prototype_keys"
proof (rule ccontr)
  assume r: "createReport env visit photos notes = Inr doc"
  assume "\<not> (\<forall>note \<in> set notes. category note \<notin> set object_prototype_keys)"
  then have "group_notes notes = Inl TypeError"
    by (intro group_notes_inherited) auto
  with r show False
    by (simp add: createReport_def)
qed

lemma own_entries_stable_grouping:
  "\<forall>note \<in> set notes. \<not> is_array_index (category note) \<Longrightarrow>
   own_entries (stable_grouping notes) = stable_grouping notes"
  by (intro own_entries_no_index) (auto simp: stable_grouping_def set_first_seen)

lemma truthy_stable_grouping:
  "k \<notin> set object_prototype_keys \<Longrightarrow>
   truthy (get_property (stable_grouping notes) k) \<longleftrightarrow> k \<in> category ` set notes"
  by (simp add: get_property_stable_grouping)

lemma filter_Cons_append: "filter P (x # xs) = (if P x then [x] else []) @ filter P xs"
  by simp

lemma keyPoints_stable_grouping:
  "keyPoints (stable_grouping notes)
   = map snd (filter (\<lambda>(c, point). c \<in> category ` set notes)
       [(''academics'', ''Academic programs and educational opportunities were evaluated''),
        (''campus'', ''Campus culture and student life were observed''),
        (''facilities'', ''Campus facilities and resources were examined''),
        (''location'', ''Location and surrounding area were assessed''),
        (''housing'', ''Housing options and living arrangements were reviewed''),
        (''financial'', ''Financial considerations and aid opportunities were discussed''),
        (''social'', ''Social environment and community aspects were evaluated'')])"
proof -
  have np: "''academics'' \<notin> set object_prototype_keys" "''campus'' \<notin> set object_prototype_keys"
    "''facilities'' \<notin> set object_prototype_keys" "''location'' \<notin> set object_prototype_keys"
    "''housing'' \<notin> set object_prototype_keys" "''financial'' \<notin> set object_prototype_keys"
    "''social'' \<notin> set object_prototype_keys"
    by (simp_all add: object_prototype_keys_def)
  show ?thesis
    unfolding keyPoints_def filter_Cons_append map_append
    by (simp only: truthy_stable_grouping [OF np(1)] truthy_stable_grouping [OF np(2)]
        truthy_stable_grouping [OF np(3)] truthy_stable_grouping [OF np(4)]
        truthy_stable_grouping [OF np(5)] truthy_stable_grouping [OF np(6)]
        truthy_stable_grouping [OF np(7)] filter.simps(1) list.map append_Nil2
        if_distrib [of "map snd"] prod.case snd_conv)
qed

lemma single_line_category_heading: "single_line c \<Longrightarrow> single_line (category_heading c)"
  by (simp add: category_heading_def categoryTitles_def single_line_def)

lemma single_line_observation:
  assumes "\<forall>(c, ns) \<in> set obj. single_line c \<and> (\<forall>n \<in> set ns. single_line (content n))"
  shows "\<forall>l \<in> set (observation_lines obj). single_line l"
proof
  fix l
  assume l: "l \<in> set (observation_lines obj)"
  show "single_line l"
  proof (cases "obj = []")
    case True
    with l show ?thesis by (simp add: observation_lines_def)
  next
    case False
    with l consider "l = ''## Detailed Observations''" | "l = []"
      | c ns where "(c, ns) \<in> set (own_entries obj)" "l = ''### '' @ category_heading c"
      | c ns n where "(c, ns) \<in> set (own_entries obj)" "n \<in> set ns" "l = content n"
      by (auto simp: observation_lines_def)
    then show ?thesis
    proof cases
      case 1
      then show ?thesis by (simp add: single_line_def)
    next
      case 2
      then show ?thesis by (simp add: single_line_def)
    next
      case 3
      with assms have "single_line c"
        by (auto simp: set_own_entries)
      then have "single_line (category_heading c)"
        by (rule single_line_category_heading)
      with 3 show ?thesis
        by (simp add: single_line_def)
    next
      case 4
      with assms show ?thesis
        by (auto simp: set_own_entries)
    qed
  qed
qed

lemma single_line_takeaway: "\<forall>l \<in> set (takeaway_lines notes obj). single_line l"
proof -
  have "\<forall>p \<in> set (keyPoints obj). single_line (''- '' @ p)"
    using keyPoints_subset [of obj] by (auto simp: single_line_def)
  then show ?thesis
    by (auto simp: takeaway_lines_def single_line_def)
qed

lemma single_line_report:
  assumes "single_line (college_name visit)"
      and "single_line (toLocaleDateString env (visit_date visit))"
      and "single_line (location visit)"
      and "single_line (today env)"
      and "\<forall>n \<in> set notes. single_line (category n) \<and> single_line (content n)"
      and "\<forall>p \<in> set photos. single_line (caption p)"
  shows "\<forall>l \<in> set (report_lines env visit photos notes (stable_grouping notes)). single_line l"
proof -
  have "\<forall>(c, ns) \<in> set (stable_grouping notes). single_line c \<and> (\<forall>n \<in> set ns. single_line (content n))"
    using assms(5) by (auto simp: stable_grouping_def set_first_seen)
  then have obs: "\<forall>l \<in> set (observation_lines (stable_grouping notes)). single_line l"
    by (rule single_line_observation)
  show ?thesis
    unfolding report_lines_def
    using single_line_header [OF assms(1,2,3)] single_line_summary [OF assms(1)] obs
      single_line_visual [OF assms(6)] single_line_takeaway single_line_next_steps
      single_line_footer [OF assms(4)]
    by (simp add: ball_Un)
qed

lemma render_line_empty: "render_line [] = LineBreak"
  by (simp add: render_line_def endsWith_def trim_def)


section \<open>Properties of the renderer\<close>

text \<open>
  Claim C4. The renderer is total and keeps every line: the text is split at its line
  feeds, the pieces joined by line feeds give the text back, there is one more piece than
  there are line feeds, and the element at each position is the one \<open>render_line\<close> gives
  for the line at that position. This holds in particular for a text returned by
  \<open>createReport\<close>.
\<close>

theorem render_one_element_per_line:
  "length (render text) = length (split_str text ''\<newline>'')
   \<and> length (render text) = Suc (count_list text (CHR ''\<newline>''))
   \<and> join ''\<newline>'' (split_str text ''\<newline>'') = text
   \<and> (\<forall>i < length (split_str text ''\<newline>'').
         render text ! i = render_line (split_str text ''\<newline>'' ! i))
   \<and> (createReport env visit photos notes = Inr text
        \<longrightarrow> length (render text) = Suc (count_list text (CHR ''\<newline>'')))"
  by (simp add: render_def split_str_def length_split_fields_char join_split_fields)

theorem render_one_element_per_line_witness:
  "length (render ''# T\<newline>\<newline>- x'') = 3
   \<and> render ''# T\<newline>\<newline>- x'' ! 2 = ListItem ''x''
   \<and> createReport \<lparr>toLocaleDateString = (\<lambda>s. ''March 15, 2024''), today = ''April 1, 2024''\<rparr>
         \<lparr>college_name = ''MIT'', visit_date = ''2024-03-15'', location = []\<rparr> [] []
       = Inr (''# College Visit Report: MIT\<newline>\<newline>**Visit Date:** March 15, 2024\<newline>\<newline>---\<newline>\<newline>''
              @ executive_summary \<lparr>college_name = ''MIT'', visit_date = ''2024-03-15'', location = []\<rparr> [] [] []
              @ key_takeaways [] [] @ next_steps @ ''---\<newline>\<newline>*Report generated on April 1, 2024*\<newline>'')
   \<and> length (render (''# College Visit Report: MIT\<newline>\<newline>**Visit Date:** March 15, 2024\<newline>\<newline>---\<newline>\<newline>''
              @ executive_summary \<lparr>college_name = ''MIT'', visit_date = ''2024-03-15'', location = []\<rparr> [] [] []
              @ key_takeaways [] [] @ next_steps @ ''---\<newline>\<newline>*Report generated on April 1, 2024*\<newline>''))
       = Suc (count_list (''# College Visit Report: MIT\<newline>\<newline>**Visit Date:** March 15, 2024\<newline>\<newline>---\<newline>\<newline>''
              @ executive_summary \<lparr>college_name = ''MIT'', visit_date = ''2024-03-15'', location = []\<rparr> [] [] []
              @ key_takeaways [] [] @ next_steps @ ''---\<newline>\<newline>*Report generated on April 1, 2024*\<newline>'') (CHR ''\<newline>''))"
proof -
  let ?env = "\<lparr>toLocaleDateString = (\<lambda>s. ''March 15, 2024''), today = ''April 1, 2024''\<rparr>"
  let ?visit = "\<lparr>college_name = ''MIT'', visit_date = ''2024-03-15'', location = []\<rparr>"
  let ?doc = "''# College Visit Report: MIT\<newline>\<newline>**Visit Date:** March 15, 2024\<newline>\<newline>---\<newline>\<newline>''
              @ executive_summary ?visit [] [] []
              @ key_takeaways [] [] @ next_steps @ ''---\<newline>\<newline>*Report generated on April 1, 2024*\<newline>''"
  have doc: "createReport ?env ?visit [] [] = Inr ?doc"
    by (simp add: createReport_def group_notes_def report_header_def report_footer_def
        detailed_observations_def visual_documentation_def own_keys_def own_entries_def)
  have "length (render ?doc) = Suc (count_list ?doc (CHR ''\<newline>''))"
    using render_one_element_per_line [of ?doc ?env ?visit "[]" "[]"] doc by blast
  moreover have "length (render ''# T\<newline>\<newline>- x'') = 3
      \<and> render ''# T\<newline>\<newline>- x'' ! 2 = ListItem ''x''"
    using render_one_element_per_line [of "''# T\<newline>\<newline>- x''"]
    by (simp add: split_str_def render_line_def endsWith_def substring_from_def substring_def)
  ultimately show ?thesis
    using doc by blast
qed

text \<open>
  Claim C6. A line of the form \<open>**inner**\<close> is a bold paragraph holding \<open>inner\<close>, so
  \<open>**bold**\<close> is the bold paragraph \<open>bold\<close>. A line that is no heading and does not both
  begin and end with \<open>**\<close>, but contains \<open>**\<close>, is a mixed paragraph: its runs are the
  fields of the line split at \<open>**\<close> (joined by \<open>**\<close> they give the line back), in their
  order, plain at even positions and bold at odd positions. The line \<open>a **b** c\<close> has the
  runs plain \<open>a \<close>, bold \<open>b\<close>, plain \<open> c\<close>.
\<close>

theorem render_line_bold_precedence:
  "render_line (''**'' @ inner @ ''**'') = BoldParagraph inner
   \<and> render_line ''**bold**'' = BoldParagraph ''bold''
   \<and> (\<not> startsWith line ''# '' \<and> \<not> startsWith line ''## '' \<and> \<not> startsWith line ''### ''
        \<and> \<not> (startsWith line ''**'' \<and> endsWith line ''**'') \<and> includes_str line ''**''
        \<longrightarrow> render_line line = MixedParagraph (runs (split_str line ''**''))
            \<and> join ''**'' (split_str line ''**'') = line
            \<and> length (runs (split_str line ''**'')) = length (split_str line ''**'')
            \<and> (\<forall>i < length (split_str line ''**'').
                  runs (split_str line ''**'') ! i
                  = (if even i then Span (split_str line ''**'' ! i)
                     else Strong (split_str line ''**'' ! i))))
   \<and> render_line ''a **b** c'' = MixedParagraph [Span ''a '', Strong ''b'', Span '' c'']"
proof -
  have "render_line (''**'' @ inner @ ''**'') = BoldParagraph inner"
    by (simp add: render_line_def endsWith_def substring_def)
  moreover have "render_line ''**bold**'' = BoldParagraph ''bold''"
    by (simp add: render_line_def endsWith_def substring_def)
  moreover have "join ''**'' (split_str line ''**'') = line"
    by (simp add: split_str_def join_split_fields)
  moreover have "render_line ''a **b** c'' = MixedParagraph [Span ''a '', Strong ''b'', Span '' c'']"
    by (simp add: render_line_def endsWith_def split_str_def runs_def)
  ultimately show ?thesis
    by (simp add: render_line_def runs_length runs_nth)
qed

theorem render_line_bold_precedence_witness:
  "render_line (''**'' @ ''Visit Date:'' @ ''**'') = BoldParagraph ''Visit Date:''
   \<and> render_line ''**Visit Date:** March 15, 2024''
       = MixedParagraph [Span [], Strong ''Visit Date:'', Span '' March 15, 2024'']
   \<and> join ''**'' [[], ''Visit Date:'', '' March 15, 2024''] = ''**Visit Date:** March 15, 2024''"
  using render_line_bold_precedence [of "''Visit Date:''" "''**Visit Date:** March 15, 2024''"]
  by (simp add: endsWith_def split_str_def runs_def)

text \<open>
  Claim C10, as amended. The test for a bold paragraph accepts a line whose opening and
  closing \<open>**\<close> overlap. The line \<open>**\<close> is a bold paragraph whose text is \<open>**\<close>, not the
  empty text: the call \<open>substring(2, 0)\<close> swaps its indices and returns the whole line. The
  line \<open>***\<close> is a bold paragraph whose text is \<open>*\<close>.
\<close>

theorem render_line_overlapping_delimiters:
  "startsWith ''**'' ''**'' \<and> endsWith ''**'' ''**''
   \<and> substring ''**'' 2 (int (length ''**'') - 2) = ''**''
   \<and> render_line ''**'' = BoldParagraph ''**''
   \<and> render_line ''***'' = BoldParagraph ''*''"
  by (simp add: render_line_def endsWith_def substring_def)

text \<open>Claim C10 as stated fails: the text of the bold paragraph for \<open>**\<close> is not empty.\<close>

theorem render_line_double_star_counterexample:
  "render_line ''**'' \<noteq> BoldParagraph []"
  by (simp add: render_line_def endsWith_def substring_def)


section \<open>Properties of \<open>createReport\<close>\<close>

text \<open>
  Claim C5. With no notes and no photos \<open>createReport\<close> returns a document: the header, the
  executive summary with all three counts zero, then at once the Key Takeaways heading
  followed by the fallback sentence, the next steps and the footer. The Detailed
  Observations and the Visual Documentation sections are empty texts, and when the visit's
  fields and the dates hold no line feed, no line of the document is one of the two
  headings.
\<close>

theorem createReport_no_notes_no_photos:
  "createReport env visit [] []
   = Inr (''# College Visit Report: '' @ college_name visit @ ''\<newline>\<newline>''
          @ ''**Visit Date:** '' @ toLocaleDateString env (visit_date visit) @ ''\<newline>\<newline>''
          @ (if location visit = [] then [] else ''**Location:** '' @ location visit @ ''\<newline>\<newline>'')
          @ ''---\<newline>\<newline>''
          @ ''## Executive Summary\<newline>\<newline>''
          @ ''This report documents my visit to '' @ college_name visit
          @ ''. During this visit, I took 0 photos and recorded 0 detailed notes across 0 different categories.\<newline>\<newline>''
          @ ''## Key Takeaways\<newline>\<newline>''
          @ ''While I didn't record specific notes during this visit, the experience and photos provide valuable documentation for future reference.\<newline>\<newline>''
          @ next_steps
          @ report_footer env)
   \<and> detailed_observations [] = []
   \<and> visual_documentation [] = []
   \<and> (single_line (college_name visit) \<and> single_line (toLocaleDateString env (visit_date visit))
        \<and> single_line (location visit) \<and> single_line (today env)
        \<longrightarrow> (\<exists>doc. createReport env visit [] [] = Inr doc
                   \<and> ''## Detailed Observations'' \<notin> set (split_str doc ''\<newline>'')
                   \<and> ''## Visual Documentation'' \<notin> set (split_str doc ''\<newline>'')))"
proof -
  have doc: "createReport env visit [] []
   = Inr (''# College Visit Report: '' @ college_name visit @ ''\<newline>\<newline>''
          @ ''**Visit Date:** '' @ toLocaleDateString env (visit_date visit) @ ''\<newline>\<newline>''
          @ (if location visit = [] then [] else ''**Location:** '' @ location visit @ ''\<newline>\<newline>'')
          @ ''---\<newline>\<newline>''
          @ ''## Executive Summary\<newline>\<newline>''
          @ ''This report documents my visit to '' @ college_name visit
          @ ''. During this visit, I took 0 photos and recorded 0 detailed notes across 0 different categories.\<newline>\<newline>''
          @ ''## Key Takeaways\<newline>\<newline>''
          @ ''While I didn't record specific notes during this visit, the experience and photos provide valuable documentation for future reference.\<newline>\<newline>''
          @ next_steps
          @ report_footer env)"
    by (simp add: createReport_def group_notes_def report_header_def executive_summary_def
        detailed_observations_def visual_documentation_def key_takeaways_def
        own_keys_def own_entries_def plural_def number_toString.simps digit_char_def)
  have empty: "detailed_observations [] = [] \<and> visual_documentation [] = []"
    by (simp add: detailed_observations_def visual_documentation_def own_keys_def own_entries_def)
  have lines: "\<exists>doc. createReport env visit [] [] = Inr doc
                   \<and> ''## Detailed Observations'' \<notin> set (split_str doc ''\<newline>'')
                   \<and> ''## Visual Documentation'' \<notin> set (split_str doc ''\<newline>'')"
    if h: "single_line (college_name visit)" "single_line (toLocaleDateString env (visit_date visit))"
          "single_line (location visit)" "single_line (today env)"
  proof -
    let ?ls = "report_lines env visit [] [] []"
    have "group_notes [] = Inr []"
      by (simp add: group_notes_def)
    then have ret: "createReport env visit [] [] = Inr (unlines ?ls)"
      by (rule createReport_lines)
    have tk: "\<forall>l \<in> set (takeaway_lines [] []). single_line l"
      by (simp add: takeaway_lines_def single_line_def)
    have "\<forall>l \<in> set ?ls. single_line l"
      using single_line_header [OF h(1,2,3)] single_line_summary [OF h(1)] tk
        single_line_next_steps single_line_footer [OF h(4)]
      by (auto simp: report_lines_def observation_lines_def visual_lines_def)
    then have sp: "split_str (unlines ?ls) ''\<newline>'' = ?ls @ [[]]"
      by (rule split_unlines)
    have "''## Detailed Observations'' \<notin> set ?ls \<and> ''## Visual Documentation'' \<notin> set ?ls"
      by (simp add: report_lines_def header_lines_def summary_lines_def summary_sentence_def
          observation_lines_def visual_lines_def takeaway_lines_def next_steps_lines_def
          footer_lines_def)
    with ret sp show ?thesis
      by simp
  qed
  from doc empty lines show ?thesis
    by blast
qed

theorem createReport_no_notes_no_photos_witness:
  "createReport \<lparr>toLocaleDateString = (\<lambda>s. ''March 15, 2024''), today = ''April 1, 2024''\<rparr>
     \<lparr>college_name = ''MIT'', visit_date = ''2024-03-15'', location = []\<rparr> [] []
   = Inr (''# College Visit Report: MIT\<newline>\<newline>**Visit Date:** March 15, 2024\<newline>\<newline>---\<newline>\<newline>## Executive Summary\<newline>\<newline>This report documents my visit to MIT. During this visit, I took 0 photos and recorded 0 detailed notes across 0 different categories.\<newline>\<newline>## Key Takeaways\<newline>\<newline>While I didn't record specific notes during this visit, the experience and photos provide valuable documentation for future reference.\<newline>\<newline>''
          @ next_steps @ ''---\<newline>\<newline>*Report generated on April 1, 2024*\<newline>'')
   \<and> ''## Detailed Observations''
       \<notin> set (split_str (''# College Visit Report: MIT\<newline>\<newline>**Visit Date:** March 15, 2024\<newline>\<newline>---\<newline>\<newline>## Executive Summary\<newline>\<newline>This report documents my visit to MIT. During this visit, I took 0 photos and recorded 0 detailed notes across 0 different categories.\<newline>\<newline>## Key Takeaways\<newline>\<newline>While I didn't record specific notes during this visit, the experience and photos provide valuable documentation for future reference.\<newline>\<newline>''
          @ next_steps @ ''---\<newline>\<newline>*Report generated on April 1, 2024*\<newline>'') ''\<newline>'')"
proof -
  let ?env = "\<lparr>toLocaleDateString = (\<lambda>s. ''March 15, 2024''), today = ''April 1, 2024''\<rparr>"
  let ?visit = "\<lparr>college_name = ''MIT'', visit_date = ''2024-03-15'', location = []\<rparr>"
  have h: "single_line (college_name ?visit) \<and> single_line (toLocaleDateString ?env (visit_date ?visit))
        \<and> single_line (location ?visit) \<and> single_line (today ?env)"
    by (simp add: single_line_def)
  show ?thesis
    using createReport_no_notes_no_photos [of ?env ?visit] h
    by (auto simp: report_footer_def)
qed

text \<open>
  Claim C7. Whenever a document is composed, its Executive Summary prints the number of
  photos followed by \<open>photo\<close> when that number is 1 and by \<open>photos\<close> otherwise, and the
  number of notes followed by \<open>detailed note\<close> when that number is 1 and by
  \<open>detailed notes\<close> otherwise; the sentence of the Visual Documentation section does the
  same for the photos. Numbers are printed in decimal, so the counts 0, 1 and 2 read
  \<open>0 photos\<close>, \<open>1 photo\<close>, \<open>2 photos\<close>. A document is composed whenever no category is a
  name inherited from \<open>Object.prototype\<close>.
\<close>

theorem createReport_count_phrases:
  "(\<forall>note \<in> set notes. category note \<notin> set object_prototype_keys)
   \<longrightarrow> createReport env visit photos notes
       = Inr (report_header env visit
              @ ''## Executive Summary\<newline>\<newline>''
              @ ''This report documents my visit to '' @ college_name visit
              @ ''. During this visit, I took '' @ number_toString (length photos)
              @ (if length photos = 1 then '' photo '' else '' photos '')
              @ ''and recorded '' @ number_toString (length notes)
              @ (if length notes = 1 then '' detailed note '' else '' detailed notes '')
              @ ''across '' @ number_toString (card (category ` set notes))
              @ '' different categories.\<newline>\<newline>''
              @ detailed_observations (stable_grouping notes)
              @ (if photos = [] then []
                 else ''## Visual Documentation\<newline>\<newline>''
                      @ ''I captured '' @ number_toString (length photos)
                      @ (if length photos = 1 then '' photo'' else '' photos'')
                      @ '' during my visit, documenting various aspects of the campus including:\<newline>\<newline>''
                      @ concat (map (\<lambda>photo. if caption photo \<noteq> [] then ''- '' @ caption photo @ ''\<newline>'' else [])
                                photos)
                      @ ''\<newline>'')
              @ key_takeaways notes (stable_grouping notes)
              @ next_steps
              @ report_footer env)
   \<and> number_toString 0 = ''0'' \<and> number_toString 1 = ''1'' \<and> number_toString 2 = ''2''"
proof -
  have "number_toString 0 = ''0'' \<and> number_toString 1 = ''1'' \<and> number_toString 2 = ''2''"
    by (simp add: number_toString.simps digit_char_def)
  then show ?thesis
    by (simp add: createReport_sections executive_summary_def visual_documentation_def
        plural_def category_count)
qed

theorem createReport_count_phrases_witness:
  "createReport \<lparr>toLocaleDateString = (\<lambda>s. ''March 15, 2024''), today = ''April 1, 2024''\<rparr>
     \<lparr>college_name = ''MIT'', visit_date = ''2024-03-15'', location = []\<rparr>
     [\<lparr>photo_url = ''u1'', caption = ''Library''\<rparr>]
     [\<lparr>category = ''general'', content = ''Nice''\<rparr>]
   = Inr (''# College Visit Report: MIT\<newline>\<newline>**Visit Date:** March 15, 2024\<newline>\<newline>---\<newline>\<newline>''
          @ ''## Executive Summary\<newline>\<newline>''
          @ ''This report documents my visit to MIT. During this visit, I took 1 photo and recorded 1 detailed note across 1 different categories.\<newline>\<newline>''
          @ detailed_observations (stable_grouping [\<lparr>category = ''general'', content = ''Nice''\<rparr>])
          @ ''## Visual Documentation\<newline>\<newline>''
          @ ''I captured 1 photo during my visit, documenting various aspects of the campus including:\<newline>\<newline>''
          @ ''- Library\<newline>\<newline>''
          @ key_takeaways [\<lparr>category = ''general'', content = ''Nice''\<rparr>]
              (stable_grouping [\<lparr>category = ''general'', content = ''Nice''\<rparr>])
          @ next_steps
          @ ''---\<newline>\<newline>*Report generated on April 1, 2024*\<newline>'')"
  using createReport_count_phrases
    [of "[\<lparr>category = ''general'', content = ''Nice''\<rparr>]"
        "\<lparr>toLocaleDateString = (\<lambda>s. ''March 15, 2024''), today = ''April 1, 2024''\<rparr>"
        "\<lparr>college_name = ''MIT'', visit_date = ''2024-03-15'', location = []\<rparr>"
        "[\<lparr>photo_url = ''u1'', caption = ''Library''\<rparr>]"]
  by (simp add: object_prototype_keys_def report_header_def report_footer_def)

text \<open>
  Claim C8. The Visual Documentation section is the empty text exactly when there are no
  photos. Otherwise it is the heading, the summary sentence and, in the order of the
  photos, one bullet \<open>- caption\<close> for each photo whose caption is not empty, and nothing
  for a photo without caption. When no caption holds a line feed, the lines of the section
  are the heading, the sentence and exactly these bullets. The section is a part of every
  composed document.
\<close>

theorem visual_documentation_bullets:
  "(visual_documentation photos = [] \<longleftrightarrow> photos = [])
   \<and> (photos \<noteq> []
        \<longrightarrow> visual_documentation photos
            = ''## Visual Documentation\<newline>\<newline>'' @ visual_sentence photos @ ''\<newline>\<newline>''
              @ concat (map (\<lambda>p. ''- '' @ caption p @ ''\<newline>'') (filter (\<lambda>p. caption p \<noteq> []) photos))
              @ ''\<newline>'')
   \<and> (photos \<noteq> [] \<and> (\<forall>p \<in> set photos. single_line (caption p))
        \<longrightarrow> split_str (visual_documentation photos) ''\<newline>''
            = [''## Visual Documentation'', [], visual_sentence photos, []]
              @ map (\<lambda>p. ''- '' @ caption p) (filter (\<lambda>p. caption p \<noteq> []) photos)
              @ [[], []])
   \<and> ((\<forall>note \<in> set notes. category note \<notin> set object_prototype_keys)
        \<longrightarrow> createReport env visit photos notes
            = Inr (report_header env visit
                   @ executive_summary visit photos notes (stable_grouping notes)
                   @ detailed_observations (stable_grouping notes)
                   @ visual_documentation photos
                   @ key_takeaways notes (stable_grouping notes)
                   @ next_steps
                   @ report_footer env))"
proof -
  have bullets: "unlines (map (\<lambda>p. ''- '' @ caption p) ps) = concat (map (\<lambda>p. ''- '' @ caption p @ ''\<newline>'') ps)" for ps
    by (induction ps) (simp_all add: unlines_def)
  have a: "visual_documentation photos = [] \<longleftrightarrow> photos = []"
    by (simp add: visual_documentation_def)
  have b: "visual_documentation photos
            = ''## Visual Documentation\<newline>\<newline>'' @ visual_sentence photos @ ''\<newline>\<newline>''
              @ concat (map (\<lambda>p. ''- '' @ caption p @ ''\<newline>'') (filter (\<lambda>p. caption p \<noteq> []) photos))
              @ ''\<newline>''" if "photos \<noteq> []"
    unfolding visual_documentation_lines visual_lines_def bullets [symmetric]
    using that by (simp add: unlines_append unlines_Cons unlines_Nil)
  have c: "split_str (visual_documentation photos) ''\<newline>''
            = [''## Visual Documentation'', [], visual_sentence photos, []]
              @ map (\<lambda>p. ''- '' @ caption p) (filter (\<lambda>p. caption p \<noteq> []) photos)
              @ [[], []]"
    if "photos \<noteq> []" "\<forall>p \<in> set photos. single_line (caption p)"
  proof -
    have "split_str (unlines (visual_lines photos)) ''\<newline>'' = visual_lines photos @ [[]]"
      using single_line_visual [OF that(2)] by (rule split_unlines)
    with that(1) show ?thesis
      by (simp add: visual_documentation_lines visual_lines_def)
  qed
  from a b c createReport_sections [of "notes" env visit photos] show ?thesis
    by blast
qed

theorem visual_documentation_bullets_witness:
  "visual_documentation
     [\<lparr>photo_url = ''u1'', caption = ''Library''\<rparr>, \<lparr>photo_url = ''u2'', caption = []\<rparr>,
      \<lparr>photo_url = ''u3'', caption = ''Dorm''\<rparr>]
   = ''## Visual Documentation\<newline>\<newline>I captured 3 photos during my visit, documenting various aspects of the campus including:\<newline>\<newline>- Library\<newline>- Dorm\<newline>\<newline>''
   \<and> split_str (visual_documentation
        [\<lparr>photo_url = ''u1'', caption = ''Library''\<rparr>, \<lparr>photo_url = ''u2'', caption = []\<rparr>,
         \<lparr>photo_url = ''u3'', caption = ''Dorm''\<rparr>]) ''\<newline>''
     = [''## Visual Documentation'', [],
        ''I captured 3 photos during my visit, documenting various aspects of the campus including:'',
        [], ''- Library'', ''- Dorm'', [], []]
   \<and> createReport \<lparr>toLocaleDateString = (\<lambda>s. ''March 15, 2024''), today = ''April 1, 2024''\<rparr>
       \<lparr>college_name = ''MIT'', visit_date = ''2024-03-15'', location = []\<rparr>
       [\<lparr>photo_url = ''u1'', caption = ''Library''\<rparr>, \<lparr>photo_url = ''u2'', caption = []\<rparr>,
        \<lparr>photo_url = ''u3'', caption = ''Dorm''\<rparr>] []
     = Inr (report_header \<lparr>toLocaleDateString = (\<lambda>s. ''March 15, 2024''), today = ''April 1, 2024''\<rparr>
              \<lparr>college_name = ''MIT'', visit_date = ''2024-03-15'', location = []\<rparr>
            @ executive_summary \<lparr>college_name = ''MIT'', visit_date = ''2024-03-15'', location = []\<rparr>
                [\<lparr>photo_url = ''u1'', caption = ''Library''\<rparr>, \<lparr>photo_url = ''u2'', caption = []\<rparr>,
                 \<lparr>photo_url = ''u3'', caption = ''Dorm''\<rparr>] [] []
            @ ''## Visual Documentation\<newline>\<newline>I captured 3 photos during my visit, documenting various aspects of the campus including:\<newline>\<newline>- Library\<newline>- Dorm\<newline>\<newline>''
            @ key_takeaways [] [] @ next_steps
            @ report_footer \<lparr>toLocaleDateString = (\<lambda>s. ''March 15, 2024''), today = ''April 1, 2024''\<rparr>)"
  using visual_documentation_bullets
    [of "[\<lparr>photo_url = ''u1'', caption = ''Library''\<rparr>, \<lparr>photo_url = ''u2'', caption = []\<rparr>,
          \<lparr>photo_url = ''u3'', caption = ''Dorm''\<rparr>]" "[]"
        "\<lparr>toLocaleDateString = (\<lambda>s. ''March 15, 2024''), today = ''April 1, 2024''\<rparr>"
        "\<lparr>college_name = ''MIT'', visit_date = ''2024-03-15'', location = []\<rparr>"]
  by (simp add: single_line_def visual_sentence_def number_toString.simps digit_char_def
      stable_grouping_def detailed_observations_def own_keys_def own_entries_def split_str_def)

text \<open>
  Claim C9. No note is dropped: in every text that \<open>createReport\<close> returns, the content of
  every note of the input occurs as a substring. \<open>createReport\<close> returns a text whenever no
  category is a name inherited from \<open>Object.prototype\<close>, in particular for every input over
  the eight categories of the note editor.
\<close>

theorem createReport_keeps_every_note:
  "(createReport env visit photos notes = Inr doc
      \<longrightarrow> (\<forall>note \<in> set notes. includes_str doc (content note)
                                 \<and> (\<exists>a b. doc = a @ content note @ b)))
   \<and> ((\<forall>note \<in> set notes. category note \<notin> set object_prototype_keys)
        \<longrightarrow> (\<exists>doc. createReport env visit photos notes = Inr doc))
   \<and> ((\<forall>note \<in> set notes. category note \<in> set (map fst categoryTitles))
        \<longrightarrow> (\<exists>doc. createReport env visit photos notes = Inr doc))"
proof -
  have part: "\<exists>a b. doc = a @ content n @ b"
    if r: "createReport env visit photos notes = Inr doc" and n: "n \<in> set notes" for n
  proof -
    let ?obj = "stable_grouping notes"
    from r have ok: "\<forall>note \<in> set notes. category note \<notin> set object_prototype_keys"
      by (rule createReport_Inr_not_inherited)
    from n have "content n \<in> set (observation_lines ?obj)"
      by (intro content_in_observation_lines [OF stable_grouping_member]) auto
    then obtain a b where "detailed_observations ?obj = a @ content n @ b"
      using unlines_member detailed_observations_lines by metis
    with r createReport_sections [OF ok, of env visit photos]
    have "doc = (report_header env visit @ executive_summary visit photos notes ?obj @ a)
                @ content n
                @ (b @ visual_documentation photos @ key_takeaways notes ?obj @ next_steps
                   @ report_footer env)"
      by simp
    then show ?thesis by blast
  qed
  have total: "\<exists>doc. createReport env visit photos notes = Inr doc"
    if "\<forall>note \<in> set notes. category note \<notin> set object_prototype_keys"
    using createReport_sections [OF that] by blast
  have "set (map fst categoryTitles) \<inter> set object_prototype_keys = {}"
    by (simp add: categoryTitles_def object_prototype_keys_def)
  then have editor: "\<exists>doc. createReport env visit photos notes = Inr doc"
    if "\<forall>note \<in> set notes. category note \<in> set (map fst categoryTitles)"
    using that by (intro total) blast
  from part total editor show ?thesis
    by (simp add: includes_str_iff)
qed

theorem createReport_keeps_every_note_witness:
  "createReport \<lparr>toLocaleDateString = (\<lambda>s. ''March 15, 2024''), today = ''April 1, 2024''\<rparr>
     \<lparr>college_name = ''MIT'', visit_date = ''2024-03-15'', location = []\<rparr> []
     [\<lparr>category = ''campus'', content = ''Lively quad''\<rparr>, \<lparr>category = ''7'', content = ''Dorm tour''\<rparr>]
   = Inr (report_header \<lparr>toLocaleDateString = (\<lambda>s. ''March 15, 2024''), today = ''April 1, 2024''\<rparr>
            \<lparr>college_name = ''MIT'', visit_date = ''2024-03-15'', location = []\<rparr>
          @ executive_summary \<lparr>college_name = ''MIT'', visit_date = ''2024-03-15'', location = []\<rparr> []
              [\<lparr>category = ''campus'', content = ''Lively quad''\<rparr>, \<lparr>category = ''7'', content = ''Dorm tour''\<rparr>]
              [(''campus'', [\<lparr>category = ''campus'', content = ''Lively quad''\<rparr>]),
               (''7'', [\<lparr>category = ''7'', content = ''Dorm tour''\<rparr>])]
          @ ''## Detailed Observations\<newline>\<newline>### 7\<newline>\<newline>Dorm tour\<newline>\<newline>### Campus Life & Culture\<newline>\<newline>Lively quad\<newline>\<newline>''
          @ key_takeaways
              [\<lparr>category = ''campus'', content = ''Lively quad''\<rparr>, \<lparr>category = ''7'', content = ''Dorm tour''\<rparr>]
              [(''campus'', [\<lparr>category = ''campus'', content = ''Lively quad''\<rparr>]),
               (''7'', [\<lparr>category = ''7'', content = ''Dorm tour''\<rparr>])]
          @ next_steps
          @ report_footer \<lparr>toLocaleDateString = (\<lambda>s. ''March 15, 2024''), today = ''April 1, 2024''\<rparr>)
   \<and> includes_str
        (report_header \<lparr>toLocaleDateString = (\<lambda>s. ''March 15, 2024''), today = ''April 1, 2024''\<rparr>
            \<lparr>college_name = ''MIT'', visit_date = ''2024-03-15'', location = []\<rparr>
          @ executive_summary \<lparr>college_name = ''MIT'', visit_date = ''2024-03-15'', location = []\<rparr> []
              [\<lparr>category = ''campus'', content = ''Lively quad''\<rparr>, \<lparr>category = ''7'', content = ''Dorm tour''\<rparr>]
              [(''campus'', [\<lparr>category = ''campus'', content = ''Lively quad''\<rparr>]),
               (''7'', [\<lparr>category = ''7'', content = ''Dorm tour''\<rparr>])]
          @ ''## Detailed Observations\<newline>\<newline>### 7\<newline>\<newline>Dorm tour\<newline>\<newline>### Campus Life & Culture\<newline>\<newline>Lively quad\<newline>\<newline>''
          @ key_takeaways
              [\<lparr>category = ''campus'', content = ''Lively quad''\<rparr>, \<lparr>category = ''7'', content = ''Dorm tour''\<rparr>]
              [(''campus'', [\<lparr>category = ''campus'', content = ''Lively quad''\<rparr>]),
               (''7'', [\<lparr>category = ''7'', content = ''Dorm tour''\<rparr>])]
          @ next_steps
          @ report_footer \<lparr>toLocaleDateString = (\<lambda>s. ''March 15, 2024''), today = ''April 1, 2024''\<rparr>)
        ''Lively quad''"
proof -
  let ?env = "\<lparr>toLocaleDateString = (\<lambda>s. ''March 15, 2024''), today = ''April 1, 2024''\<rparr>"
  let ?visit = "\<lparr>college_name = ''MIT'', visit_date = ''2024-03-15'', location = []\<rparr>"
  let ?notes = "[\<lparr>category = ''campus'', content = ''Lively quad''\<rparr>, \<lparr>category = ''7'', content = ''Dorm tour''\<rparr>]"
  let ?obj = "[(''campus'', [\<lparr>category = ''campus'', content = ''Lively quad''\<rparr>]),
               (''7'', [\<lparr>category = ''7'', content = ''Dorm tour''\<rparr>])]"
  let ?doc = "report_header ?env ?visit @ executive_summary ?visit [] ?notes ?obj
          @ ''## Detailed Observations\<newline>\<newline>### 7\<newline>\<newline>Dorm tour\<newline>\<newline>### Campus Life & Culture\<newline>\<newline>Lively quad\<newline>\<newline>''
          @ key_takeaways ?notes ?obj @ next_steps @ report_footer ?env"
  have g: "group_notes ?notes = Inr ?obj"
    by (simp add: group_notes_def group_note_def get_property_def object_prototype_keys_def)
  have entries: "own_entries ?obj = [(''7'', [\<lparr>category = ''7'', content = ''Dorm tour''\<rparr>]),
                                     (''campus'', [\<lparr>category = ''campus'', content = ''Lively quad''\<rparr>])]"
    by (simp add: own_entries_def is_array_index_def is_digit_def numeric_value_def)
  have r: "createReport ?env ?visit [] ?notes = Inr ?doc"
    by (simp add: createReport_def g detailed_observations_def own_keys_def entries
        visual_documentation_def category_heading_def categoryTitles_def)
  from createReport_keeps_every_note [of ?env ?visit "[]" ?notes ?doc] r
  have "includes_str ?doc ''Lively quad''"
    by simp
  with r show ?thesis
    by blast
qed

text \<open>
  Claim C2, as amended. For every sequence of notes in which no category is an array index
  (the decimal numeral of an integer from 0 to 4294967294) and none is a name inherited
  from \<open>Object.prototype\<close>, so in particular for every sequence over the eight categories of
  the table, the grouping is stable: the entries that \<open>createReport\<close> writes out are the
  categories in the order of their first occurrence, each with its notes in the order of
  the input, and the Detailed Observations section is one heading per category followed by
  the contents of these notes. For notes \<open>A\<close>, \<open>B\<close>, \<open>C\<close> of the categories \<open>x\<close>, \<open>y\<close>, \<open>x\<close>
  the entries are \<open>x\<close> with \<open>A\<close>, \<open>C\<close> and then \<open>y\<close> with \<open>B\<close>.
\<close>

theorem detailed_observations_stable:
  "((\<forall>note \<in> set notes. \<not> is_array_index (category note)
                          \<and> category note \<notin> set object_prototype_keys)
    \<longrightarrow> group_notes notes = Inr (stable_grouping notes)
        \<and> own_entries (stable_grouping notes)
          = map (\<lambda>c. (c, filter (\<lambda>note. category note = c) notes)) (first_seen (map category notes))
        \<and> detailed_observations (stable_grouping notes)
          = (if notes = [] then []
             else ''## Detailed Observations\<newline>\<newline>''
                  @ concat (map (\<lambda>c. ''### '' @ category_heading c @ ''\<newline>\<newline>''
                                     @ concat (map (\<lambda>note. content note @ ''\<newline>\<newline>'')
                                                 (filter (\<lambda>note. category note = c) notes)))
                            (first_seen (map category notes))))
        \<and> createReport env visit photos notes
          = Inr (report_header env visit
                 @ executive_summary visit photos notes (stable_grouping notes)
                 @ detailed_observations (stable_grouping notes)
                 @ visual_documentation photos
                 @ key_takeaways notes (stable_grouping notes)
                 @ next_steps
                 @ report_footer env))
   \<and> (x \<noteq> y \<and> \<not> is_array_index x \<and> \<not> is_array_index y
        \<and> x \<notin> set object_prototype_keys \<and> y \<notin> set object_prototype_keys
        \<longrightarrow> group_notes [\<lparr>category = x, content = a\<rparr>, \<lparr>category = y, content = b\<rparr>,
                         \<lparr>category = x, content = c\<rparr>]
            = Inr [(x, [\<lparr>category = x, content = a\<rparr>, \<lparr>category = x, content = c\<rparr>]),
                   (y, [\<lparr>category = y, content = b\<rparr>])]
            \<and> own_entries [(x, [\<lparr>category = x, content = a\<rparr>, \<lparr>category = x, content = c\<rparr>]),
                            (y, [\<lparr>category = y, content = b\<rparr>])]
              = [(x, [\<lparr>category = x, content = a\<rparr>, \<lparr>category = x, content = c\<rparr>]),
                 (y, [\<lparr>category = y, content = b\<rparr>])])
   \<and> (\<forall>c \<in> set (map fst categoryTitles). \<not> is_array_index c \<and> c \<notin> set object_prototype_keys)
   \<and> distinct (first_seen (map category notes))
   \<and> set (first_seen (map category notes)) = category ` set notes"
proof -
  have main: "group_notes notes = Inr (stable_grouping notes)
        \<and> own_entries (stable_grouping notes)
          = map (\<lambda>c. (c, filter (\<lambda>note. category note = c) notes)) (first_seen (map category notes))
        \<and> detailed_observations (stable_grouping notes)
          = (if notes = [] then []
             else ''## Detailed Observations\<newline>\<newline>''
                  @ concat (map (\<lambda>c. ''### '' @ category_heading c @ ''\<newline>\<newline>''
                                     @ concat (map (\<lambda>note. content note @ ''\<newline>\<newline>'')
                                                 (filter (\<lambda>note. category note = c) notes)))
                            (first_seen (map category notes))))
        \<and> createReport env visit photos notes
          = Inr (report_header env visit
                 @ executive_summary visit photos notes (stable_grouping notes)
                 @ detailed_observations (stable_grouping notes)
                 @ visual_documentation photos
                 @ key_takeaways notes (stable_grouping notes)
                 @ next_steps
                 @ report_footer env)"
    if h: "\<forall>note \<in> set notes. \<not> is_array_index (category note)
                          \<and> category note \<notin> set object_prototype_keys"
  proof -
    from h have ni: "\<forall>note \<in> set notes. \<not> is_array_index (category note)"
      and np: "\<forall>note \<in> set notes. category note \<notin> set object_prototype_keys"
      by auto
    have e: "own_entries (stable_grouping notes) = stable_grouping notes"
      using ni by (rule own_entries_stable_grouping)
    have len: "length (own_keys (stable_grouping notes)) > 0 \<longleftrightarrow> notes \<noteq> []"
      by (cases "notes") (simp_all add: length_own_keys stable_grouping_def)
    have d: "detailed_observations (stable_grouping notes)
          = (if notes = [] then []
             else ''## Detailed Observations\<newline>\<newline>''
                  @ concat (map (\<lambda>c. ''### '' @ category_heading c @ ''\<newline>\<newline>''
                                     @ concat (map (\<lambda>note. content note @ ''\<newline>\<newline>'')
                                                 (filter (\<lambda>note. category note = c) notes)))
                            (first_seen (map category notes))))"
      unfolding detailed_observations_def e len
      by (simp add: stable_grouping_def comp_def)
    from e d group_notes_stable_grouping [OF np] createReport_sections [OF np] show ?thesis
      by (simp add: stable_grouping_def)
  qed
  have example: "group_notes [\<lparr>category = x, content = a\<rparr>, \<lparr>category = y, content = b\<rparr>,
                         \<lparr>category = x, content = c\<rparr>]
            = Inr [(x, [\<lparr>category = x, content = a\<rparr>, \<lparr>category = x, content = c\<rparr>]),
                   (y, [\<lparr>category = y, content = b\<rparr>])]
            \<and> own_entries [(x, [\<lparr>category = x, content = a\<rparr>, \<lparr>category = x, content = c\<rparr>]),
                            (y, [\<lparr>category = y, content = b\<rparr>])]
              = [(x, [\<lparr>category = x, content = a\<rparr>, \<lparr>category = x, content = c\<rparr>]),
                 (y, [\<lparr>category = y, content = b\<rparr>])]"
    if "x \<noteq> y" "\<not> is_array_index x" "\<not> is_array_index y"
       "x \<notin> set object_prototype_keys" "y \<notin> set object_prototype_keys"
    using that by (simp add: group_notes_def group_note_def get_property_def own_entries_def)
  have table: "\<forall>c \<in> set (map fst categoryTitles). \<not> is_array_index c \<and> c \<notin> set object_prototype_keys"
    by (simp add: categoryTitles_def is_array_index_def is_digit_def object_prototype_keys_def)
  from main example table show ?thesis
    by (simp add: distinct_first_seen set_first_seen)
qed

theorem detailed_observations_stable_witness:
  "group_notes [\<lparr>category = ''campus'', content = ''A''\<rparr>, \<lparr>category = ''academics'', content = ''B''\<rparr>,
                \<lparr>category = ''campus'', content = ''C''\<rparr>]
   = Inr [(''campus'', [\<lparr>category = ''campus'', content = ''A''\<rparr>, \<lparr>category = ''campus'', content = ''C''\<rparr>]),
          (''academics'', [\<lparr>category = ''academics'', content = ''B''\<rparr>])]
   \<and> detailed_observations
        (stable_grouping [\<lparr>category = ''campus'', content = ''A''\<rparr>,
                          \<lparr>category = ''academics'', content = ''B''\<rparr>,
                          \<lparr>category = ''campus'', content = ''C''\<rparr>])
     = ''## Detailed Observations\<newline>\<newline>### Campus Life & Culture\<newline>\<newline>A\<newline>\<newline>C\<newline>\<newline>### Academic Programs & Quality\<newline>\<newline>B\<newline>\<newline>''"
  using detailed_observations_stable
    [of "[\<lparr>category = ''campus'', content = ''A''\<rparr>, \<lparr>category = ''academics'', content = ''B''\<rparr>,
          \<lparr>category = ''campus'', content = ''C''\<rparr>]" _ _ _ "''campus''" "''academics''" "''A''" "''C''" "''B''"]
  by (simp add: is_array_index_def is_digit_def object_prototype_keys_def stable_grouping_def
      category_heading_def categoryTitles_def)

text \<open>
  Claim C2 as stated fails for a category that is an array index: the note of category
  \<open>b\<close> comes first in the input, yet the subsection of category \<open>1\<close> is written first.
\<close>

theorem detailed_observations_index_first_counterexample:
  "group_notes [\<lparr>category = ''b'', content = ''A''\<rparr>, \<lparr>category = ''1'', content = ''B''\<rparr>]
   = Inr [(''b'', [\<lparr>category = ''b'', content = ''A''\<rparr>]), (''1'', [\<lparr>category = ''1'', content = ''B''\<rparr>])]
   \<and> own_keys [(''b'', [\<lparr>category = ''b'', content = ''A''\<rparr>]), (''1'', [\<lparr>category = ''1'', content = ''B''\<rparr>])]
     = [''1'', ''b'']
   \<and> detailed_observations
        [(''b'', [\<lparr>category = ''b'', content = ''A''\<rparr>]), (''1'', [\<lparr>category = ''1'', content = ''B''\<rparr>])]
     = ''## Detailed Observations\<newline>\<newline>### 1\<newline>\<newline>B\<newline>\<newline>### b\<newline>\<newline>A\<newline>\<newline>''"
  by (simp add: group_notes_def group_note_def get_property_def object_prototype_keys_def
      detailed_observations_def own_keys_def own_entries_def is_array_index_def is_digit_def
      numeric_value_def category_heading_def categoryTitles_def)

text \<open>
  Claim C1, as amended. For every input with at least one note for which a document is
  composed, the Key Takeaways section is its heading, an introductory sentence and one
  bullet for each of the seven categories academics, campus, facilities, location,
  housing, financial and social that occurs among the notes, each bullet the fixed
  sentence of its category. The bullets stand in this fixed order of the seven
  categories, whatever the order of the notes, and no other category, the category
  general included, has a bullet.
\<close>

theorem key_takeaways_bullets:
  "notes \<noteq> [] \<and> (\<forall>note \<in> set notes. category note \<notin> set object_prototype_keys)
   \<longrightarrow> key_takeaways notes (stable_grouping notes)
       = ''## Key Takeaways\<newline>\<newline>''
         @ ''Based on my observations and notes, here are the main points to consider:\<newline>\<newline>''
         @ concat (map (\<lambda>(c, point). ''- '' @ point @ ''\<newline>'')
             (filter (\<lambda>(c, point). c \<in> category ` set notes)
                [(''academics'', ''Academic programs and educational opportunities were evaluated''),
                 (''campus'', ''Campus culture and student life were observed''),
                 (''facilities'', ''Campus facilities and resources were examined''),
                 (''location'', ''Location and surrounding area were assessed''),
                 (''housing'', ''Housing options and living arrangements were reviewed''),
                 (''financial'', ''Financial considerations and aid opportunities were discussed''),
                 (''social'', ''Social environment and community aspects were evaluated'')]))
         @ ''\<newline>''
     \<and> createReport env visit photos notes
       = Inr (report_header env visit
              @ executive_summary visit photos notes (stable_grouping notes)
              @ detailed_observations (stable_grouping notes)
              @ visual_documentation photos
              @ key_takeaways notes (stable_grouping notes)
              @ next_steps
              @ report_footer env)"
proof -
  have "concat (map (\<lambda>point. ''- '' @ point @ ''\<newline>'') (map snd ps))
        = concat (map (\<lambda>(c, point). ''- '' @ point @ ''\<newline>'') ps)" for ps :: "(string \<times> string) list"
    by (induction ps) auto
  then have "key_takeaways notes (stable_grouping notes)
       = ''## Key Takeaways\<newline>\<newline>''
         @ ''Based on my observations and notes, here are the main points to consider:\<newline>\<newline>''
         @ concat (map (\<lambda>(c, point). ''- '' @ point @ ''\<newline>'')
             (filter (\<lambda>(c, point). c \<in> category ` set notes)
                [(''academics'', ''Academic programs and educational opportunities were evaluated''),
                 (''campus'', ''Campus culture and student life were observed''),
                 (''facilities'', ''Campus facilities and resources were examined''),
                 (''location'', ''Location and surrounding area were assessed''),
                 (''housing'', ''Housing options and living arrangements were reviewed''),
                 (''financial'', ''Financial considerations and aid opportunities were discussed''),
                 (''social'', ''Social environment and community aspects were evaluated'')]))
         @ ''\<newline>''" if "notes \<noteq> []"
    unfolding key_takeaways_def keyPoints_stable_grouping
    using that by simp
  then show ?thesis
    using createReport_sections [of "notes" env visit photos] by blast
qed

theorem key_takeaways_bullets_witness:
  "key_takeaways
     [\<lparr>category = ''campus'', content = ''A''\<rparr>, \<lparr>category = ''academics'', content = ''B''\<rparr>,
      \<lparr>category = ''general'', content = ''C''\<rparr>]
     (stable_grouping
        [\<lparr>category = ''campus'', content = ''A''\<rparr>, \<lparr>category = ''academics'', content = ''B''\<rparr>,
         \<lparr>category = ''general'', content = ''C''\<rparr>])
   = ''## Key Takeaways\<newline>\<newline>Based on my observations and notes, here are the main points to consider:\<newline>\<newline>- Academic programs and educational opportunities were evaluated\<newline>- Campus culture and student life were observed\<newline>\<newline>''"
  using key_takeaways_bullets
    [of "[\<lparr>category = ''campus'', content = ''A''\<rparr>, \<lparr>category = ''academics'', content = ''B''\<rparr>,
          \<lparr>category = ''general'', content = ''C''\<rparr>]"]
  by (simp add: object_prototype_keys_def)

text \<open>
  Claim C1 as stated fails. The notes below have the categories campus, academics and
  general, first seen in this order. The section has two bullets, not three: there is none
  for general. And the bullet of academics stands before the bullet of campus.
\<close>

theorem key_takeaways_order_counterexample:
  "group_notes [\<lparr>category = ''campus'', content = ''A''\<rparr>, \<lparr>category = ''academics'', content = ''B''\<rparr>,
                \<lparr>category = ''general'', content = ''C''\<rparr>]
   = Inr [(''campus'', [\<lparr>category = ''campus'', content = ''A''\<rparr>]),
          (''academics'', [\<lparr>category = ''academics'', content = ''B''\<rparr>]),
          (''general'', [\<lparr>category = ''general'', content = ''C''\<rparr>])]
   \<and> own_keys [(''campus'', [\<lparr>category = ''campus'', content = ''A''\<rparr>]),
                (''academics'', [\<lparr>category = ''academics'', content = ''B''\<rparr>]),
                (''general'', [\<lparr>category = ''general'', content = ''C''\<rparr>])]
     = [''campus'', ''academics'', ''general'']
   \<and> keyPoints [(''campus'', [\<lparr>category = ''campus'', content = ''A''\<rparr>]),
                 (''academics'', [\<lparr>category = ''academics'', content = ''B''\<rparr>]),
                 (''general'', [\<lparr>category = ''general'', content = ''C''\<rparr>])]
     = [''Academic programs and educational opportunities were evaluated'',
        ''Campus culture and student life were observed'']"
  by (simp add: group_notes_def group_note_def get_property_def object_prototype_keys_def
      own_keys_def own_entries_def is_array_index_def is_digit_def keyPoints_def)

text \<open>
  Claim C3, as amended. When the college name, the location, the two formatted dates,
  every note's category and content and every caption hold no line feed (and a document
  is composed), the lines of the document are exactly its logical units, each on one
  line: the title, the metadata lines, the headings, the summary sentence, every note's
  content, every bullet, the rules, the footer, and the empty lines between them. The
  renderer therefore yields one element for each unit.
\<close>

theorem report_units_are_lines:
  "(\<forall>note \<in> set notes. category note \<notin> set object_prototype_keys)
   \<and> single_line (college_name visit) \<and> single_line (toLocaleDateString env (visit_date visit))
   \<and> single_line (location visit) \<and> single_line (today env)
   \<and> (\<forall>note \<in> set notes. single_line (category note) \<and> single_line (content note))
   \<and> (\<forall>photo \<in> set photos. single_line (caption photo))
   \<longrightarrow> (let units = report_lines env visit photos notes (stable_grouping notes)
        in createReport env visit photos notes = Inr (unlines units)
           \<and> split_str (unlines units) ''\<newline>'' = units @ [[]]
           \<and> render (unlines units) = map render_line units @ [LineBreak]
           \<and> ''# College Visit Report: '' @ college_name visit \<in> set units
           \<and> ''**Visit Date:** '' @ toLocaleDateString env (visit_date visit) \<in> set units
           \<and> (location visit \<noteq> [] \<longrightarrow> ''**Location:** '' @ location visit \<in> set units)
           \<and> (\<forall>note \<in> set notes. content note \<in> set units)
           \<and> (\<forall>photo \<in> set photos. caption photo \<noteq> [] \<longrightarrow> ''- '' @ caption photo \<in> set units)
           \<and> (\<forall>point \<in> set (keyPoints (stable_grouping notes)).
                 notes \<noteq> [] \<longrightarrow> ''- '' @ point \<in> set units))"
proof (intro impI, elim conjE)
  let ?obj = "stable_grouping notes"
  let ?units = "report_lines env visit photos notes ?obj"
  assume np: "\<forall>note \<in> set notes. category note \<notin> set object_prototype_keys"
    and h: "single_line (college_name visit)" "single_line (toLocaleDateString env (visit_date visit))"
      "single_line (location visit)" "single_line (today env)"
      "\<forall>note \<in> set notes. single_line (category note) \<and> single_line (content note)"
      "\<forall>photo \<in> set photos. single_line (caption photo)"
  have ret: "createReport env visit photos notes = Inr (unlines ?units)"
    using group_notes_stable_grouping [OF np] by (rule createReport_lines)
  have "\<forall>l \<in> set ?units. single_line l"
    using h by (rule single_line_report)
  then have sp: "split_str (unlines ?units) ''\<newline>'' = ?units @ [[]]"
    by (rule split_unlines)
  then have rd: "render (unlines ?units) = map render_line ?units @ [LineBreak]"
    by (simp add: render_def render_line_empty)
  have title: "''# College Visit Report: '' @ college_name visit \<in> set ?units"
    by (simp add: report_lines_def header_lines_def)
  have date: "''**Visit Date:** '' @ toLocaleDateString env (visit_date visit) \<in> set ?units"
    by (simp add: report_lines_def header_lines_def)
  have loc: "location visit \<noteq> [] \<longrightarrow> ''**Location:** '' @ location visit \<in> set ?units"
    by (simp add: report_lines_def header_lines_def)
  have cont: "\<forall>note \<in> set notes. content note \<in> set ?units"
  proof
    fix n assume "n \<in> set notes"
    then have "content n \<in> set (observation_lines ?obj)"
      by (intro content_in_observation_lines [OF stable_grouping_member]) auto
    then show "content n \<in> set ?units"
      by (simp add: report_lines_def)
  qed
  have capt: "\<forall>photo \<in> set photos. caption photo \<noteq> [] \<longrightarrow> ''- '' @ caption photo \<in> set ?units"
  proof (intro ballI impI)
    fix p assume "p \<in> set photos" "caption p \<noteq> []"
    then have "''- '' @ caption p \<in> set (visual_lines photos)"
      by (auto simp: visual_lines_def)
    then show "''- '' @ caption p \<in> set ?units"
      by (simp add: report_lines_def)
  qed
  have pts: "\<forall>point \<in> set (keyPoints ?obj). notes \<noteq> [] \<longrightarrow> ''- '' @ point \<in> set ?units"
  proof (intro ballI impI)
    fix p assume "p \<in> set (keyPoints ?obj)" "notes \<noteq> []"
    then have "''- '' @ p \<in> set (takeaway_lines notes ?obj)"
      by (auto simp: takeaway_lines_def)
    then show "''- '' @ p \<in> set ?units"
      by (simp add: report_lines_def)
  qed
  from ret sp rd title date loc cont capt pts
  show "let units = ?units
        in createReport env visit photos notes = Inr (unlines units)
           \<and> split_str (unlines units) ''\<newline>'' = units @ [[]]
           \<and> render (unlines units) = map render_line units @ [LineBreak]
           \<and> ''# College Visit Report: '' @ college_name visit \<in> set units
           \<and> ''**Visit Date:** '' @ toLocaleDateString env (visit_date visit) \<in> set units
           \<and> (location visit \<noteq> [] \<longrightarrow> ''**Location:** '' @ location visit \<in> set units)
           \<and> (\<forall>note \<in> set notes. content note \<in> set units)
           \<and> (\<forall>photo \<in> set photos. caption photo \<noteq> [] \<longrightarrow> ''- '' @ caption photo \<in> set units)
           \<and> (\<forall>point \<in> set (keyPoints (stable_grouping notes)).
                 notes \<noteq> [] \<longrightarrow> ''- '' @ point \<in> set units)"
    unfolding Let_def by blast
qed

theorem report_units_are_lines_witness:
  "split_str
     (unlines (report_lines \<lparr>toLocaleDateString = (\<lambda>s. ''March 15, 2024''), today = ''April 1, 2024''\<rparr>
        \<lparr>college_name = ''MIT'', visit_date = ''2024-03-15'', location = ''Cambridge''\<rparr>
        [\<lparr>photo_url = ''u1'', caption = ''Library''\<rparr>]
        [\<lparr>category = ''campus'', content = ''Lively quad''\<rparr>]
        (stable_grouping [\<lparr>category = ''campus'', content = ''Lively quad''\<rparr>]))) ''\<newline>''
   = [''# College Visit Report: MIT'', [], ''**Visit Date:** March 15, 2024'', [],
      ''**Location:** Cambridge'', [], ''---'', [], ''## Executive Summary'', [],
      ''This report documents my visit to MIT. During this visit, I took 1 photo and recorded 1 detailed note across 1 different categories.'',
      [], ''## Detailed Observations'', [], ''### Campus Life & Culture'', [], ''Lively quad'', [],
      ''## Visual Documentation'', [],
      ''I captured 1 photo during my visit, documenting various aspects of the campus including:'',
      [], ''- Library'', [], ''## Key Takeaways'', [],
      ''Based on my observations and notes, here are the main points to consider:'', [],
      ''- Campus culture and student life were observed'', [], ''## Next Steps'', [],
      ''- Review this report alongside other college visit reports'',
      ''- Compare academic programs, campus culture, and overall fit'',
      ''- Consider revisiting if needed for deeper exploration'',
      ''- Discuss findings with family, counselors, and mentors'',
      ''- Make informed decisions about college applications'', [], ''---'', [],
      ''*Report generated on April 1, 2024*'', []]"
proof -
  let ?env = "\<lparr>toLocaleDateString = (\<lambda>s. ''March 15, 2024''), today = ''April 1, 2024''\<rparr>"
  let ?visit = "\<lparr>college_name = ''MIT'', visit_date = ''2024-03-15'', location = ''Cambridge''\<rparr>"
  let ?photos = "[\<lparr>photo_url = ''u1'', caption = ''Library''\<rparr>]"
  let ?notes = "[\<lparr>category = ''campus'', content = ''Lively quad''\<rparr>]"
  have hyp: "(\<forall>note \<in> set ?notes. category note \<notin> set object_prototype_keys)
   \<and> single_line (college_name ?visit) \<and> single_line (toLocaleDateString ?env (visit_date ?visit))
   \<and> single_line (location ?visit) \<and> single_line (today ?env)
   \<and> (\<forall>note \<in> set ?notes. single_line (category note) \<and> single_line (content note))
   \<and> (\<forall>photo \<in> set ?photos. single_line (caption photo))"
    by (simp add: single_line_def object_prototype_keys_def)
  have "split_str (unlines (report_lines ?env ?visit ?photos ?notes (stable_grouping ?notes))) ''\<newline>''
        = report_lines ?env ?visit ?photos ?notes (stable_grouping ?notes) @ [[]]"
    using report_units_are_lines [of ?notes ?visit ?env ?photos] hyp
    unfolding Let_def by blast
  also have "stable_grouping ?notes = [(''campus'', ?notes)]"
    by (simp add: stable_grouping_def)
  also have "report_lines ?env ?visit ?photos ?notes [(''campus'', ?notes)] @ [[]]
        = [''# College Visit Report: MIT'', [], ''**Visit Date:** March 15, 2024'', [],
      ''**Location:** Cambridge'', [], ''---'', [], ''## Executive Summary'', [],
      ''This report documents my visit to MIT. During this visit, I took 1 photo and recorded 1 detailed note across 1 different categories.'',
      [], ''## Detailed Observations'', [], ''### Campus Life & Culture'', [], ''Lively quad'', [],
      ''## Visual Documentation'', [],
      ''I captured 1 photo during my visit, documenting various aspects of the campus including:'',
      [], ''- Library'', [], ''## Key Takeaways'', [],
      ''Based on my observations and notes, here are the main points to consider:'', [],
      ''- Campus culture and student life were observed'', [], ''## Next Steps'', [],
      ''- Review this report alongside other college visit reports'',
      ''- Compare academic programs, campus culture, and overall fit'',
      ''- Consider revisiting if needed for deeper exploration'',
      ''- Discuss findings with family, counselors, and mentors'',
      ''- Make informed decisions about college applications'', [], ''---'', [],
      ''*Report generated on April 1, 2024*'', []]"
    by (simp add: report_lines_def header_lines_def summary_lines_def summary_sentence_def
        observation_lines_def visual_lines_def visual_sentence_def takeaway_lines_def
        next_steps_lines_def footer_lines_def number_toString.simps digit_char_def own_keys_def
        own_entries_def is_array_index_def is_digit_def category_heading_def categoryTitles_def
        keyPoints_def get_property_def object_prototype_keys_def)
  finally show ?thesis
    by (simp add: stable_grouping_def)
qed

text \<open>
  Claim C3 as stated fails: a note whose content holds a line feed is written as it is, so
  its paragraph spreads over two lines of the document, and no line of the document is
  the note's content.
\<close>

theorem note_content_line_feed_counterexample:
  "createReport \<lparr>toLocaleDateString = (\<lambda>s. ''March 15, 2024''), today = ''April 1, 2024''\<rparr>
     \<lparr>college_name = ''MIT'', visit_date = ''2024-03-15'', location = []\<rparr> []
     [\<lparr>category = ''general'', content = ''a\<newline>b''\<rparr>]
   = Inr (report_header \<lparr>toLocaleDateString = (\<lambda>s. ''March 15, 2024''), today = ''April 1, 2024''\<rparr>
            \<lparr>college_name = ''MIT'', visit_date = ''2024-03-15'', location = []\<rparr>
          @ executive_summary \<lparr>college_name = ''MIT'', visit_date = ''2024-03-15'', location = []\<rparr> []
              [\<lparr>category = ''general'', content = ''a\<newline>b''\<rparr>]
              [(''general'', [\<lparr>category = ''general'', content = ''a\<newline>b''\<rparr>])]
          @ ''## Detailed Observations\<newline>\<newline>### General Observations\<newline>\<newline>a\<newline>b\<newline>\<newline>''
          @ key_takeaways [\<lparr>category = ''general'', content = ''a\<newline>b''\<rparr>]
              [(''general'', [\<lparr>category = ''general'', content = ''a\<newline>b''\<rparr>])]
          @ next_steps
          @ report_footer \<lparr>toLocaleDateString = (\<lambda>s. ''March 15, 2024''), today = ''April 1, 2024''\<rparr>)
   \<and> split_str ''## Detailed Observations\<newline>\<newline>### General Observations\<newline>\<newline>a\<newline>b\<newline>\<newline>'' ''\<newline>''
     = [''## Detailed Observations'', [], ''### General Observations'', [], ''a'', ''b'', [], []]
   \<and> ''a\<newline>b''
     \<notin> set (split_str
          (report_header \<lparr>toLocaleDateString = (\<lambda>s. ''March 15, 2024''), today = ''April 1, 2024''\<rparr>
            \<lparr>college_name = ''MIT'', visit_date = ''2024-03-15'', location = []\<rparr>
          @ executive_summary \<lparr>college_name = ''MIT'', visit_date = ''2024-03-15'', location = []\<rparr> []
              [\<lparr>category = ''general'', content = ''a\<newline>b''\<rparr>]
              [(''general'', [\<lparr>category = ''general'', content = ''a\<newline>b''\<rparr>])]
          @ ''## Detailed Observations\<newline>\<newline>### General Observations\<newline>\<newline>a\<newline>b\<newline>\<newline>''
          @ key_takeaways [\<lparr>category = ''general'', content = ''a\<newline>b''\<rparr>]
              [(''general'', [\<lparr>category = ''general'', content = ''a\<newline>b''\<rparr>])]
          @ next_steps
          @ report_footer \<lparr>toLocaleDateString = (\<lambda>s. ''March 15, 2024''), today = ''April 1, 2024''\<rparr>)
          ''\<newline>'')"
proof -
  let ?notes = "[\<lparr>category = ''general'', content = ''a\<newline>b''\<rparr>]"
  have g: "group_notes ?notes = Inr [(''general'', ?notes)]"
    by (simp add: group_notes_def group_note_def get_property_def object_prototype_keys_def)
  have d: "detailed_observations [(''general'', ?notes)]
           = ''## Detailed Observations\<newline>\<newline>### General Observations\<newline>\<newline>a\<newline>b\<newline>\<newline>''"
    by (simp add: detailed_observations_def own_keys_def own_entries_def is_array_index_def
        is_digit_def category_heading_def categoryTitles_def)
  have s: "split_str ''## Detailed Observations\<newline>\<newline>### General Observations\<newline>\<newline>a\<newline>b\<newline>\<newline>'' ''\<newline>''
     = [''## Detailed Observations'', [], ''### General Observations'', [], ''a'', ''b'', [], []]"
    by (simp add: split_str_def)
  have n: "''a\<newline>b'' \<notin> set (split_str doc ''\<newline>'')" for doc
    using split_fields_char_no_sep [of "''a\<newline>b''" "CHR ''\<newline>''" doc]
    by (auto simp: split_str_def)
  show ?thesis
    by (simp only: createReport_def g d s n sum.case visual_documentation_def list.size
        less_irrefl if_False append_Nil simp_thms)
qed

end
